theory Spec2Isabelle
  imports Main
begin

section \<open>Documents\<close>

text \<open>
  The two Mongoose schemas. A document's \<open>_id\<close> is the key under which the collection
  holds it; ids are strings in the store's canonical form. Dates are epoch milliseconds.
\<close>

record user =
  user_name :: string
  email :: string
  pendingTasks :: "string list"
  user_dateCreated :: int

record task =
  task_name :: string
  description :: string
  deadline :: int
  completed :: bool
  assignedUser :: string
  assignedUserName :: string
  task_dateCreated :: int

section \<open>Request bodies\<close>

text \<open>
  \<open>req.body\<close>, field by field: \<open>None\<close> is a field the payload does not carry
  (\<open>undefined\<close> after destructuring). A field that is present carries a value of its
  schema type (\<open>pendingTasks\<close> present means \<open>Array.isArray\<close> holds); JSON \<open>null\<close>
  and values of another JSON type are outside this model. Fields the schemas do not
  declare are dropped by Mongoose and are left out.
\<close>

record user_body =
  ub_name :: "string option"
  ub_email :: "string option"
  ub_pendingTasks :: "string list option"
  ub_dateCreated :: "int option"

record task_body =
  tb_name :: "string option"
  tb_description :: "string option"
  tb_deadline :: "int option"
  tb_completed :: "bool option"
  tb_assignedUser :: "string option"
  tb_assignedUserName :: "string option"
  tb_dateCreated :: "int option"

text \<open>JavaScript truthiness at the three field types: \<open>''\<close>, \<open>0\<close>, \<open>false\<close> and
  \<open>undefined\<close> are falsy.\<close>

definition truthy_str :: "string option \<Rightarrow> bool" where
  "truthy_str v = (case v of None \<Rightarrow> False | Some s \<Rightarrow> s \<noteq> [])"

definition truthy_num :: "int option \<Rightarrow> bool" where
  "truthy_num v = (case v of None \<Rightarrow> False | Some n \<Rightarrow> n \<noteq> 0)"

definition truthy_bool :: "bool option \<Rightarrow> bool" where
  "truthy_bool v = (case v of None \<Rightarrow> False | Some b \<Rightarrow> b)"

text \<open>\<open>x || ''\<close> on a string field.\<close>

definition or_empty :: "string option \<Rightarrow> string" where
  "or_empty v = (case v of None \<Rightarrow> [] | Some s \<Rightarrow> s)"

text \<open>\<open>String.prototype.toLowerCase\<close> and \<open>trim\<close>, on ASCII.\<close>

definition lower_char :: "char \<Rightarrow> char" where
  "lower_char c =
     (case map_of (zip ''ABCDEFGHIJKLMNOPQRSTUVWXYZ'' ''abcdefghijklmnopqrstuvwxyz'') c of
        None \<Rightarrow> c
      | Some l \<Rightarrow> l)"

definition toLowerCase :: "string \<Rightarrow> string" where
  "toLowerCase s = map lower_char s"

definition is_space :: "char \<Rightarrow> bool" where
  "is_space c = (c \<in> set [CHR '' '', CHR 0x09, CHR 0x0A, CHR 0x0B, CHR 0x0C, CHR 0x0D])"

definition trim :: "string \<Rightarrow> string" where
  "trim s = rev (dropWhile is_space (rev (dropWhile is_space s)))"

section \<open>Casts\<close>

text \<open>
  Neither schema declares \<open>_id\<close>, so a document's id is an ObjectId, and Mongoose casts
  every string that a query compares with \<open>_id\<close>. A string of 24 hexadecimal digits,
  in either case, is cast to the id whose string form (\<open>String(doc._id)\<close>) is the same
  digits in lower case; the cast of any other string fails with a CastError. (Drivers
  that also accept a 12-byte string are not modelled.) The fields \<open>assignedUser\<close> and
  \<open>pendingTasks\<close> are declared as strings and are stored as given.
\<close>

definition is_hex :: "char \<Rightarrow> bool" where
  "is_hex c = (c \<in> set ''0123456789abcdefABCDEF'')"

definition castObjectId :: "string \<Rightarrow> string option" where
  "castObjectId str =
     (if length str = 24 \<and> list_all is_hex str then Some (toLowerCase str) else None)"

text \<open>The ids of the stored documents that a list of strings refers to, and the same
  list when every string can be cast (\<open>None\<close> when one cannot).\<close>

definition docs_of :: "string list \<Rightarrow> string list" where
  "docs_of ids = List.map_filter castObjectId ids"

definition cast_all :: "string list \<Rightarrow> string list option" where
  "cast_all ids = those (map castObjectId ids)"

text \<open>
  A date field arrives as a number of milliseconds. \<open>new Date(n)\<close> is a date only for
  \<open>n\<close> within 8.64e15 of the epoch; beyond that the cast to \<open>Date\<close> fails.
\<close>

definition castDate :: "int \<Rightarrow> int option" where
  "castDate n = (if \<bar>n\<bar> \<le> 8640000000000000 then Some n else None)"

definition date_ok :: "int option \<Rightarrow> bool" where
  "date_ok v = (case v of None \<Rightarrow> True | Some n \<Rightarrow> castDate n \<noteq> None)"

section \<open>Replies\<close>

datatype rdata =
    Null | UserDoc string user | TaskDoc string task
  | UserDocs "(string \<times> user) list" | TaskDocs "(string \<times> task) list"
  | Count nat | ErrorText

datatype response = Response (status: nat) (message: string) (rdata: rdata)

definition send :: "nat \<Rightarrow> string \<Rightarrow> rdata \<Rightarrow> response" where
  "send code msg d = Response code msg d"

section \<open>The document store\<close>

text \<open>
  A collection is the list of its documents in store order, each under the string form
  of its \<open>_id\<close>. Every call the handlers await is recorded in \<open>oplog\<close>, so that "no
  store access" is a statement about the state. A call throws when an id it is given
  cannot be cast, when a document fails validation, and when the store refuses a
  second document under an existing \<open>_id\<close> or, for users, under an existing \<open>email\<close>
  (the schema's \<open>unique: true\<close>). A call that throws leaves the collections as they
  were. Connection failures are outside the model.
\<close>

datatype store_op =
    UserFindOne | UserSave string | UserFindById string | UserFindByIdAndUpdate string
  | UserFindByIdAndDelete string | UserUpdateOne string | UserFindList | UserCountDocuments
  | TaskSave string | TaskFindById string | TaskFindByIdAndUpdate string
  | TaskFindByIdAndDelete string | TaskUpdateMany | TaskFindList | TaskCountDocuments

datatype store_error = CastError | ValidationError | DuplicateKey | TypeError

record store =
  users :: "(string \<times> user) list"
  tasks :: "(string \<times> task) list"
  oplog :: "store_op list"

definition log_op :: "store_op \<Rightarrow> store \<Rightarrow> store" where
  "log_op e s = s\<lparr>oplog := oplog s @ [e]\<rparr>"

text \<open>
  The outcome of an awaited call: the error thrown or the value returned, and the
  store afterwards. \<open>await\<close> runs the rest of a \<open>try\<close> block on the value returned and
  skips it on an error; \<open>catch\<close> is the handler's \<open>catch\<close> block, which replies 500 with
  the handler's message.
\<close>

type_synonym 'a outcome = "(store_error + 'a) \<times> store"

definition await :: "'a outcome \<Rightarrow> ('a \<Rightarrow> store \<Rightarrow> 'b outcome) \<Rightarrow> 'b outcome" where
  "await m f = (case m of (Inl e, s) \<Rightarrow> (Inl e, s) | (Inr x, s) \<Rightarrow> f x s)"

definition catch :: "response outcome \<Rightarrow> string \<Rightarrow> response \<times> store" where
  "catch m msg = (case m of (Inl e, s) \<Rightarrow> (send 500 msg ErrorText, s) | (Inr r, s) \<Rightarrow> (r, s))"

text \<open>An update of the documents a filter selects, and the removal of one id.\<close>

definition upd_where :: "(string \<Rightarrow> 'a \<Rightarrow> bool) \<Rightarrow> ('a \<Rightarrow> 'a) \<Rightarrow> (string \<times> 'a) list \<Rightarrow> (string \<times> 'a) list" where
  "upd_where P f c = map (\<lambda>(k, d). (k, if P k d then f d else d)) c"

definition delete_id :: "string \<Rightarrow> (string \<times> 'a) list \<Rightarrow> (string \<times> 'a) list" where
  "delete_id i c = filter (\<lambda>(k, d). k \<noteq> i) c"

text \<open>A document found is returned with its id.\<close>

definition User_findById :: "string \<Rightarrow> store \<Rightarrow> (string \<times> user) option outcome" where
  "User_findById uid s =
     (case castObjectId uid of
        None \<Rightarrow> (Inl CastError, log_op (UserFindById uid) s)
      | Some c \<Rightarrow> (Inr (map_option (Pair c) (map_of (users s) c)), log_op (UserFindById uid) s))"

definition User_findOne_email :: "string \<Rightarrow> store \<Rightarrow> (string \<times> user) option \<times> store" where
  "User_findOne_email e s = (List.find (\<lambda>(k, u). email u = e) (users s), log_op UserFindOne s)"

definition User_save :: "string \<Rightarrow> user option \<Rightarrow> store \<Rightarrow> user outcome" where
  "User_save newId doc s =
     (case doc of
        None \<Rightarrow> (Inl ValidationError, log_op (UserSave newId) s)
      | Some u \<Rightarrow>
          if newId \<in> fst ` set (users s) \<or> list_ex (\<lambda>(k, v). email v = email u) (users s)
          then (Inl DuplicateKey, log_op (UserSave newId) s)
          else (Inr u, log_op (UserSave newId) (s\<lparr>users := users s @ [(newId, u)]\<rparr>)))"

definition User_findByIdAndUpdate ::
    "string \<Rightarrow> (user \<Rightarrow> user) \<Rightarrow> store \<Rightarrow> (string \<times> user) option outcome" where
  "User_findByIdAndUpdate uid f s =
     (case castObjectId uid of
        None \<Rightarrow> (Inl CastError, log_op (UserFindByIdAndUpdate uid) s)
      | Some c \<Rightarrow>
          (case map_of (users s) c of
             None \<Rightarrow> (Inr None, log_op (UserFindByIdAndUpdate uid) s)
           | Some u \<Rightarrow>
               if list_ex (\<lambda>(k, v). k \<noteq> c \<and> email v = email (f u)) (users s)
               then (Inl DuplicateKey, log_op (UserFindByIdAndUpdate uid) s)
               else (Inr (Some (c, f u)),
                     log_op (UserFindByIdAndUpdate uid)
                       (s\<lparr>users := upd_where (\<lambda>k d. k = c) f (users s)\<rparr>))))"

definition User_findByIdAndDelete :: "string \<Rightarrow> store \<Rightarrow> (string \<times> user) option outcome" where
  "User_findByIdAndDelete uid s =
     (case castObjectId uid of
        None \<Rightarrow> (Inl CastError, log_op (UserFindByIdAndDelete uid) s)
      | Some c \<Rightarrow>
          (Inr (map_option (Pair c) (map_of (users s) c)),
           log_op (UserFindByIdAndDelete uid) (s\<lparr>users := delete_id c (users s)\<rparr>)))"

definition User_updateOne ::
    "string \<Rightarrow> (user \<Rightarrow> bool) \<Rightarrow> (user \<Rightarrow> user) \<Rightarrow> store \<Rightarrow> unit outcome" where
  "User_updateOne uid cond f s =
     (case castObjectId uid of
        None \<Rightarrow> (Inl CastError, log_op (UserUpdateOne uid) s)
      | Some c \<Rightarrow>
          (Inr (),
           log_op (UserUpdateOne uid)
             (s\<lparr>users := upd_where (\<lambda>k d. k = c \<and> cond d) f (users s)\<rparr>)))"

definition Task_findById :: "string \<Rightarrow> store \<Rightarrow> (string \<times> task) option outcome" where
  "Task_findById tid s =
     (case castObjectId tid of
        None \<Rightarrow> (Inl CastError, log_op (TaskFindById tid) s)
      | Some c \<Rightarrow> (Inr (map_option (Pair c) (map_of (tasks s) c)), log_op (TaskFindById tid) s))"

definition Task_save :: "string \<Rightarrow> task option \<Rightarrow> store \<Rightarrow> task outcome" where
  "Task_save newId doc s =
     (case doc of
        None \<Rightarrow> (Inl ValidationError, log_op (TaskSave newId) s)
      | Some t \<Rightarrow>
          if newId \<in> fst ` set (tasks s)
          then (Inl DuplicateKey, log_op (TaskSave newId) s)
          else (Inr t, log_op (TaskSave newId) (s\<lparr>tasks := tasks s @ [(newId, t)]\<rparr>)))"

text \<open>The update is \<open>None\<close> when one of its fields cannot be cast.\<close>

definition Task_findByIdAndUpdate ::
    "string \<Rightarrow> (task \<Rightarrow> task) option \<Rightarrow> store \<Rightarrow> (string \<times> task) option outcome" where
  "Task_findByIdAndUpdate tid upd s =
     (case (castObjectId tid, upd) of
        (Some c, Some f) \<Rightarrow>
          (Inr (map_option (\<lambda>t. (c, f t)) (map_of (tasks s) c)),
           log_op (TaskFindByIdAndUpdate tid) (s\<lparr>tasks := upd_where (\<lambda>k d. k = c) f (tasks s)\<rparr>))
      | _ \<Rightarrow> (Inl CastError, log_op (TaskFindByIdAndUpdate tid) s))"

definition Task_findByIdAndDelete :: "string \<Rightarrow> store \<Rightarrow> (string \<times> task) option outcome" where
  "Task_findByIdAndDelete tid s =
     (case castObjectId tid of
        None \<Rightarrow> (Inl CastError, log_op (TaskFindByIdAndDelete tid) s)
      | Some c \<Rightarrow>
          (Inr (map_option (Pair c) (map_of (tasks s) c)),
           log_op (TaskFindByIdAndDelete tid) (s\<lparr>tasks := delete_id c (tasks s)\<rparr>)))"

text \<open>\<open>Task.updateMany\<close> with a filter \<open>_id: {$in: ids}\<close> and a condition on the document,
  and with a condition on the document only.\<close>

definition Task_updateMany_in ::
    "string list \<Rightarrow> (task \<Rightarrow> bool) \<Rightarrow> (task \<Rightarrow> task) \<Rightarrow> store \<Rightarrow> unit outcome" where
  "Task_updateMany_in ids P f s =
     (case cast_all ids of
        None \<Rightarrow> (Inl CastError, log_op TaskUpdateMany s)
      | Some ks \<Rightarrow>
          (Inr (),
           log_op TaskUpdateMany (s\<lparr>tasks := upd_where (\<lambda>k t. k \<in> set ks \<and> P t) f (tasks s)\<rparr>)))"

definition Task_updateMany :: "(task \<Rightarrow> bool) \<Rightarrow> (task \<Rightarrow> task) \<Rightarrow> store \<Rightarrow> store" where
  "Task_updateMany P f s = log_op TaskUpdateMany (s\<lparr>tasks := upd_where (\<lambda>k t. P t) f (tasks s)\<rparr>)"

section \<open>Helpers of the handlers\<close>

definition addPendingToUser :: "string \<Rightarrow> string \<Rightarrow> store \<Rightarrow> unit outcome" where
  "addPendingToUser userId taskId s =
     (if userId = [] \<or> taskId = [] then (Inr (), s)
      else User_updateOne userId (\<lambda>u. taskId \<notin> set (pendingTasks u))
             (\<lambda>u. u\<lparr>pendingTasks := pendingTasks u @ [taskId]\<rparr>) s)"

definition removePendingFromUser :: "string \<Rightarrow> string \<Rightarrow> store \<Rightarrow> unit outcome" where
  "removePendingFromUser userId taskId s =
     (if userId = [] \<or> taskId = [] then (Inr (), s)
      else User_updateOne userId (\<lambda>u. True)
             (\<lambda>u. u\<lparr>pendingTasks := filter (\<lambda>i. i \<noteq> taskId) (pendingTasks u)\<rparr>) s)"

definition resolveUserName :: "string option \<Rightarrow> store \<Rightarrow> string outcome" where
  "resolveUserName userId s =
     (case userId of
        None \<Rightarrow> (Inr ''unassigned'', s)
      | Some i \<Rightarrow>
          if i = [] then (Inr ''unassigned'', s)
          else await (User_findById i s)
                 (\<lambda>u s1. case u of
                            None \<Rightarrow> (Inr ''unassigned'', s1)
                          | Some (c, d) \<Rightarrow> (Inr (user_name d), s1)))"

section \<open>Building documents from a body\<close>

text \<open>
  \<open>new User({...req.body, email})\<close> and \<open>new Task({...req.body, assignedUserName})\<close>:
  the body's fields, the schema's defaults for the fields it does not carry
  (\<open>Date.now\<close> is the argument \<open>now\<close>). The document is \<open>None\<close> when a required field
  is missing or a date cannot be cast: \<open>save\<close> then fails validation.
\<close>

definition new_User :: "int \<Rightarrow> user_body \<Rightarrow> string \<Rightarrow> user option" where
  "new_User now body e =
     (case ub_name body of
        None \<Rightarrow> None
      | Some n \<Rightarrow>
          if date_ok (ub_dateCreated body)
          then Some \<lparr> user_name = n, email = e,
                      pendingTasks = (case ub_pendingTasks body of None \<Rightarrow> [] | Some l \<Rightarrow> l),
                      user_dateCreated = (case ub_dateCreated body of None \<Rightarrow> now | Some d \<Rightarrow> d) \<rparr>
          else None)"

definition new_Task :: "int \<Rightarrow> task_body \<Rightarrow> string \<Rightarrow> task option" where
  "new_Task now body aname =
     (case (tb_name body, tb_deadline body) of
        (Some n, Some dl) \<Rightarrow>
          if date_ok (tb_deadline body) \<and> date_ok (tb_dateCreated body)
          then Some \<lparr> task_name = n,
                      description = (case tb_description body of None \<Rightarrow> [] | Some d \<Rightarrow> d),
                      deadline = dl,
                      completed = (case tb_completed body of None \<Rightarrow> False | Some c \<Rightarrow> c),
                      assignedUser = (case tb_assignedUser body of None \<Rightarrow> [] | Some a \<Rightarrow> a),
                      assignedUserName = aname,
                      task_dateCreated = (case tb_dateCreated body of None \<Rightarrow> now | Some d \<Rightarrow> d) \<rparr>
          else None
      | _ \<Rightarrow> None)"

text \<open>
  The update document \<open>{...req.body, assignedUserName}\<close> given to
  \<open>Task.findByIdAndUpdate\<close>: Mongoose applies an update without operators as
  \<open>$set\<close>, so each field the body carries is written and every other field of the
  stored document stays as it is. Mongoose casts the update first; it is \<open>None\<close> when a
  date in it cannot be cast.
\<close>

definition set_opt :: "'a option \<Rightarrow> ('a \<Rightarrow> 'b \<Rightarrow> 'b) \<Rightarrow> 'b \<Rightarrow> 'b" where
  "set_opt v upd d = (case v of None \<Rightarrow> d | Some x \<Rightarrow> upd x d)"

definition task_set :: "task_body \<Rightarrow> string \<Rightarrow> task \<Rightarrow> task" where
  "task_set body aname t =
     (set_opt (tb_name body) (\<lambda>x d. d\<lparr>task_name := x\<rparr>)
     (set_opt (tb_description body) (\<lambda>x d. d\<lparr>description := x\<rparr>)
     (set_opt (tb_deadline body) (\<lambda>x d. d\<lparr>deadline := x\<rparr>)
     (set_opt (tb_completed body) (\<lambda>x d. d\<lparr>completed := x\<rparr>)
     (set_opt (tb_assignedUser body) (\<lambda>x d. d\<lparr>assignedUser := x\<rparr>)
     (set_opt (tb_dateCreated body) (\<lambda>x d. d\<lparr>task_dateCreated := x\<rparr>)
       t))))))\<lparr>assignedUserName := aname\<rparr>"

definition task_update :: "task_body \<Rightarrow> string \<Rightarrow> (task \<Rightarrow> task) option" where
  "task_update body aname =
     (if date_ok (tb_deadline body) \<and> date_ok (tb_dateCreated body)
      then Some (task_set body aname) else None)"

text \<open>\<open>[...new Set(xs)]\<close>: the elements of \<open>xs\<close>, each once, in order of first occurrence.\<close>

definition Set_of :: "string list \<Rightarrow> string list" where
  "Set_of xs = rev (remdups (rev xs))"

section \<open>Users\<close>

definition users_post :: "string \<Rightarrow> int \<Rightarrow> user_body \<Rightarrow> store \<Rightarrow> response \<times> store" where
  "users_post newId now body s =
     catch
       (if \<not> truthy_str (ub_name body) \<or> \<not> truthy_str (ub_email body)
        then (Inr (send 400 ''Missing required fields (name, email)'' Null), s)
        else
          let e = trim (toLowerCase (or_empty (ub_email body)));
              (dup, s1) = User_findOne_email e s
          in if dup \<noteq> None
             then (Inr (send 400 ''User with that email already exists'' Null), s1)
             else await (User_save newId (new_User now body e) s1)
                    (\<lambda>user s2. (Inr (send 201 ''User created'' (UserDoc newId user)), s2)))
       ''Server error creating user''"

definition users_id_put :: "string \<Rightarrow> user_body \<Rightarrow> store \<Rightarrow> response \<times> store" where
  "users_id_put uid body s =
     catch
       (if \<not> truthy_str (ub_name body) \<or> \<not> truthy_str (ub_email body)
        then (Inr (send 400 ''Missing required fields (name, email)'' Null), s)
        else
          await (User_findById uid s)
            (\<lambda>found s1.
               case found of
                 None \<Rightarrow> (Inr (send 404 ''User not found'' Null), s1)
               | Some (prev_id, prev) \<Rightarrow>
                   await (User_findByIdAndUpdate uid
                            (\<lambda>u. u\<lparr> user_name := or_empty (ub_name body),
                                     email := trim (toLowerCase (or_empty (ub_email body))),
                                     pendingTasks := (case ub_pendingTasks body of
                                                        Some l \<Rightarrow> l
                                                      | None \<Rightarrow> pendingTasks prev) \<rparr>) s1)
                     (\<lambda>written s2.
                        case written of
                          None \<Rightarrow> (Inr (send 404 ''User not found after update'' Null), s2)
                        | Some (updated_id, updated) \<Rightarrow>
                            (case ub_pendingTasks body of
                               None \<Rightarrow>
                                 (Inr (send 200 ''User updated'' (UserDoc updated_id updated)), s2)
                             | Some l \<Rightarrow>
                                 let prevSet = Set_of (pendingTasks prev);
                                     nextSet = Set_of l;
                                     removed = filter (\<lambda>i. i \<notin> set nextSet) prevSet;
                                     added = filter (\<lambda>i. i \<notin> set prevSet) nextSet;
                                     uname = user_name updated
                                 in await (Task_updateMany_in removed
                                             (\<lambda>t. assignedUser t = prev_id)
                                             (\<lambda>t. t\<lparr>assignedUser := [],
                                                      assignedUserName := ''unassigned''\<rparr>) s2)
                                      (\<lambda>_ s3.
                                         await (Task_updateMany_in added (\<lambda>t. True)
                                                  (\<lambda>t. t\<lparr>assignedUser := updated_id,
                                                           assignedUserName := uname\<rparr>) s3)
                                           (\<lambda>_ s4.
                                              (Inr (send 200 ''User updated''
                                                      (UserDoc updated_id updated)), s4)))))))
       ''Server error updating user''"

definition users_id_delete :: "string \<Rightarrow> store \<Rightarrow> response \<times> store" where
  "users_id_delete uid s =
     catch
       (await (User_findByIdAndDelete uid s)
          (\<lambda>user s1.
             case user of
               None \<Rightarrow> (Inr (send 404 ''User not found'' Null), s1)
             | Some u \<Rightarrow>
                 let s2 = Task_updateMany (\<lambda>t. assignedUser t = uid)
                            (\<lambda>t. t\<lparr>assignedUser := [], assignedUserName := ''unassigned''\<rparr>) s1
                 in (Inr (send 200 ''User deleted (tasks unassigned)'' Null), s2)))
       ''Server error deleting user''"

section \<open>Tasks\<close>

definition tasks_post :: "string \<Rightarrow> int \<Rightarrow> task_body \<Rightarrow> store \<Rightarrow> response \<times> store" where
  "tasks_post newId now body s =
     catch
       (if \<not> truthy_str (tb_name body) \<or> \<not> truthy_num (tb_deadline body)
        then (Inr (send 400 ''Missing required fields (name, deadline)'' Null), s)
        else
          await (resolveUserName (tb_assignedUser body) s)
            (\<lambda>assignedUserName s1.
               await (Task_save newId (new_Task now body assignedUserName) s1)
                 (\<lambda>task s2.
                    await (if truthy_str (tb_assignedUser body) \<and> \<not> truthy_bool (tb_completed body)
                           then addPendingToUser (or_empty (tb_assignedUser body)) newId s2
                           else (Inr (), s2))
                      (\<lambda>_ s3. (Inr (send 201 ''Task created'' (TaskDoc newId task)), s3)))))
       ''Server error creating task''"

definition tasks_id_put :: "string \<Rightarrow> task_body \<Rightarrow> store \<Rightarrow> response \<times> store" where
  "tasks_id_put tid body s =
     catch
       (if \<not> truthy_str (tb_name body) \<or> \<not> truthy_num (tb_deadline body)
        then (Inr (send 400 ''Missing required fields (name, deadline)'' Null), s)
        else
          await (Task_findById tid s)
            (\<lambda>found s1.
               case found of
                 None \<Rightarrow> (Inr (send 404 ''Task not found'' Null), s1)
               | Some (prev_id, prev) \<Rightarrow>
                   let newAssignedUser = or_empty (tb_assignedUser body)
                   in await (resolveUserName (Some newAssignedUser) s1)
                        (\<lambda>newAssignedUserName s2.
                           await (Task_findByIdAndUpdate tid
                                    (task_update body newAssignedUserName) s2)
                             (\<lambda>written s3.
                                case written of
                                  None \<Rightarrow> (Inl TypeError, s3)
                                | Some (updated_id, updated) \<Rightarrow>
                                    let prevUser = assignedUser prev;
                                        nextUser = assignedUser updated
                                    in await (if prevUser \<noteq> [] \<and> prevUser \<noteq> nextUser
                                              then removePendingFromUser prevUser updated_id s3
                                              else (Inr (), s3))
                                         (\<lambda>_ s4.
                                            await (if nextUser \<noteq> [] \<and> \<not> completed updated
                                                   then addPendingToUser nextUser updated_id s4
                                                   else (Inr (), s4))
                                              (\<lambda>_ s5.
                                                 await (if completed updated \<and> nextUser \<noteq> []
                                                        then removePendingFromUser nextUser
                                                               updated_id s5
                                                        else (Inr (), s5))
                                                   (\<lambda>_ s6.
                                                      (Inr (send 200 ''Task updated''
                                                              (TaskDoc updated_id updated)),
                                                       s6))))))))
       ''Server error updating task''"

definition tasks_id_delete :: "string \<Rightarrow> store \<Rightarrow> response \<times> store" where
  "tasks_id_delete tid s =
     catch
       (await (Task_findByIdAndDelete tid s)
          (\<lambda>found s1.
             case found of
               None \<Rightarrow> (Inr (send 404 ''Task not found'' Null), s1)
             | Some (task_id, task) \<Rightarrow>
                 await (if assignedUser task \<noteq> []
                        then removePendingFromUser (assignedUser task) task_id s1
                        else (Inr (), s1))
                   (\<lambda>_ s2. (Inr (send 200 ''Task deleted'' Null), s2))))
       ''Server error deleting task''"

section \<open>List requests\<close>

text \<open>
  \<open>req.query\<close>: each parameter is a string or absent. \<open>JSON.parse\<close> and the store's
  reading of a filter, a sort order and a projection are not part of this repository;
  they are the fields of \<open>mongo\<close>, over any type \<open>'j\<close> of parsed JSON.
\<close>

record query_params =
  q_where :: "string option"
  q_sort :: "string option"
  q_select :: "string option"
  q_skip :: "string option"
  q_limit :: "string option"
  q_count :: "string option"

record ('j, 'd) mongo =
  JSON_parse :: "string \<Rightarrow> 'j option"
  empty_obj :: 'j
  matches :: "'j \<Rightarrow> string \<times> 'd \<Rightarrow> bool"
  sort_docs :: "'j \<Rightarrow> (string \<times> 'd) list \<Rightarrow> (string \<times> 'd) list"
  select_fields :: "'j \<Rightarrow> string \<times> 'd \<Rightarrow> string \<times> 'd"

record 'j query =
  qy_filter :: 'j
  qy_sort :: "'j option"
  qy_select :: "'j option"
  qy_skip :: "int option"
  qy_limit :: "int option"

definition parseJSON :: "('j, 'd) mongo \<Rightarrow> string option \<Rightarrow> 'j \<Rightarrow> 'j" where
  "parseJSON M str fb =
     (if truthy_str str
      then (case JSON_parse M (or_empty str) of None \<Rightarrow> fb | Some v \<Rightarrow> v)
      else fb)"

text \<open>\<open>parseInt(str, 10)\<close>: leading white space, a sign, then decimal digits;
  \<open>None\<close> is \<open>NaN\<close>.\<close>

definition is_digit :: "char \<Rightarrow> bool" where
  "is_digit c = (c \<in> set ''0123456789'')"

definition digit_val :: "char \<Rightarrow> int" where
  "digit_val c = (case map_of (zip ''0123456789'' [0, 1, 2, 3, 4, 5, 6, 7, 8, 9]) c of
                    None \<Rightarrow> 0
                  | Some n \<Rightarrow> n)"

definition parseInt :: "string \<Rightarrow> int option" where
  "parseInt str =
     (let t = dropWhile is_space str;
          (neg, r) = (case t of
                        [] \<Rightarrow> (False, [])
                      | c # cs \<Rightarrow> if c = CHR ''-'' then (True, cs)
                                  else if c = CHR ''+'' then (False, cs) else (False, t));
          ds = takeWhile is_digit r
      in if ds = [] then None
         else Some ((if neg then - 1 else 1) * foldl (\<lambda>a c. 10 * a + digit_val c) 0 ds))"

text \<open>\<open>x || 0\<close> on the result of \<open>parseInt\<close>.\<close>

definition or_zero :: "int option \<Rightarrow> int" where
  "or_zero v = (case v of None \<Rightarrow> 0 | Some n \<Rightarrow> n)"

definition buildQuery :: "('j, 'd) mongo \<Rightarrow> query_params \<Rightarrow> bool \<Rightarrow> 'j query" where
  "buildQuery M q isTasks =
     (let query0 = \<lparr> qy_filter = parseJSON M (q_where q) (empty_obj M), qy_sort = None,
                      qy_select = None, qy_skip = None, qy_limit = None \<rparr>;
          query1 = (if truthy_str (q_sort q)
                    then query0\<lparr>qy_sort := Some (parseJSON M (q_sort q) (empty_obj M))\<rparr>
                    else query0);
          query2 = (if truthy_str (q_select q)
                    then query1\<lparr>qy_select := Some (parseJSON M (q_select q) (empty_obj M))\<rparr>
                    else query1);
          query3 = (if truthy_str (q_skip q)
                    then query2\<lparr>qy_skip := Some (or_zero (parseInt (or_empty (q_skip q))))\<rparr>
                    else query2)
      in if q_count q \<noteq> Some ''true''
         then (if truthy_str (q_limit q)
               then query3\<lparr>qy_limit := Some (or_zero (parseInt (or_empty (q_limit q))))\<rparr>
               else if isTasks then query3\<lparr>qy_limit := Some 100\<rparr> else query3)
         else query3)"

text \<open>
  What the store returns for a query: the matching documents, sorted, then skipped,
  then limited, then projected. A negative skip is refused by the store; a limit of 0
  is no limit, and a negative limit counts by its absolute value.
\<close>

definition exec :: "('j, 'd) mongo \<Rightarrow> 'j query \<Rightarrow> (string \<times> 'd) list \<Rightarrow> (string \<times> 'd) list option" where
  "exec M qy docs =
     (let found = filter (matches M (qy_filter qy)) docs;
          ordered = (case qy_sort qy of None \<Rightarrow> found | Some j \<Rightarrow> sort_docs M j found);
          limited = (\<lambda>xs. case qy_limit qy of
                             None \<Rightarrow> xs
                           | Some n \<Rightarrow> if n = 0 then xs else take (nat \<bar>n\<bar>) xs);
          projected = (\<lambda>xs. case qy_select qy of None \<Rightarrow> xs | Some j \<Rightarrow> map (select_fields M j) xs)
      in case qy_skip qy of
           None \<Rightarrow> Some (projected (limited ordered))
         | Some k \<Rightarrow> if k < 0 then None else Some (projected (limited (drop (nat k) ordered))))"

definition users_get :: "('j, user) mongo \<Rightarrow> query_params \<Rightarrow> store \<Rightarrow> response \<times> store" where
  "users_get M q s =
     (if q_count q = Some ''true''
      then (send 200 ''OK''
              (Count (length (filter (matches M (parseJSON M (q_where q) (empty_obj M))) (users s)))),
            log_op UserCountDocuments s)
      else (case exec M (buildQuery M q False) (users s) of
              None \<Rightarrow> (send 400 ''Bad request (users query)'' ErrorText, log_op UserFindList s)
            | Some ds \<Rightarrow> (send 200 ''OK'' (UserDocs ds), log_op UserFindList s)))"

definition tasks_get :: "('j, task) mongo \<Rightarrow> query_params \<Rightarrow> store \<Rightarrow> response \<times> store" where
  "tasks_get M q s =
     (if q_count q = Some ''true''
      then (send 200 ''OK''
              (Count (length (filter (matches M (parseJSON M (q_where q) (empty_obj M))) (tasks s)))),
            log_op TaskCountDocuments s)
      else (case exec M (buildQuery M q True) (tasks s) of
              None \<Rightarrow> (send 400 ''Bad request (tasks query)'' ErrorText, log_op TaskFindList s)
            | Some ds \<Rightarrow> (send 200 ''OK'' (TaskDocs ds), log_op TaskFindList s)))"

section \<open>The Sync Engine's calls\<close>

datatype call =
    CreateTask string int task_body
  | UpdateTask string task_body
  | DeleteTask string
  | UpdateUser string user_body
  | DeleteUser string

fun run :: "call \<Rightarrow> store \<Rightarrow> response \<times> store" where
  "run (CreateTask newId now body) s = tasks_post newId now body s"
| "run (UpdateTask tid body) s = tasks_id_put tid body s"
| "run (DeleteTask tid) s = tasks_id_delete tid s"
| "run (UpdateUser uid body) s = users_id_put uid body s"
| "run (DeleteUser uid) s = users_id_delete uid s"

section \<open>The consistency contract\<close>

text \<open>
  The four rules of the data model, for a task \<open>t\<close> stored under \<open>tid\<close> and a user \<open>u\<close>
  stored under \<open>uid\<close>: an uncompleted task assigned to \<open>u\<close> is in \<open>u\<close>'s pending list
  exactly once, a completed one is not in it, an unassigned task is in no pending list,
  and the task's \<open>assignedUserName\<close> is the name of the user it references, or
  \<open>unassigned\<close> when the reference is empty or dangling. A task references the user
  whose id is the string in its \<open>assignedUser\<close>: this is the comparison the handlers'
  own filters on \<open>assignedUser\<close> make.
\<close>

definition pair_ok :: "string \<Rightarrow> user \<Rightarrow> string \<Rightarrow> task \<Rightarrow> bool" where
  "pair_ok uid u tid t =
     ((assignedUser t = uid \<and> uid \<noteq> [] \<and> \<not> completed t \<longrightarrow> count_list (pendingTasks u) tid = 1) \<and>
      (assignedUser t = uid \<and> uid \<noteq> [] \<and> completed t \<longrightarrow> tid \<notin> set (pendingTasks u)) \<and>
      (assignedUser t = [] \<longrightarrow> tid \<notin> set (pendingTasks u)))"

definition name_ok :: "store \<Rightarrow> task \<Rightarrow> bool" where
  "name_ok s t =
     (assignedUserName t =
        (if assignedUser t = [] then ''unassigned''
         else (case map_of (users s) (assignedUser t) of
                 None \<Rightarrow> ''unassigned''
               | Some u \<Rightarrow> user_name u)))"

definition consistent :: "store \<Rightarrow> bool" where
  "consistent s =
     (\<forall>(tid, t) \<in> set (tasks s).
        name_ok s t \<and> (\<forall>(uid, u) \<in> set (users s). pair_ok uid u tid t))"

text \<open>Ids are assigned by the store: unique in their collection, and each the string
  form of an ObjectId.\<close>

definition canonical :: "string \<Rightarrow> bool" where
  "canonical k = (castObjectId k = Some k)"

definition wf_store :: "store \<Rightarrow> bool" where
  "wf_store s =
     (distinct (map fst (users s)) \<and> distinct (map fst (tasks s)) \<and>
      list_all canonical (map fst (users s)) \<and> list_all canonical (map fst (tasks s)))"

section \<open>What a call does to the two collections\<close>

text \<open>The user collection after \<open>addPendingToUser\<close> and \<open>removePendingFromUser\<close> have
  returned, and after the three reconciliation steps of a task update.\<close>

definition push_pending :: "string \<Rightarrow> string \<Rightarrow> (string \<times> user) list \<Rightarrow> (string \<times> user) list" where
  "push_pending uid tid us =
     (if uid = [] \<or> tid = [] then us
      else case castObjectId uid of
             None \<Rightarrow> us
           | Some c \<Rightarrow> upd_where (\<lambda>k d. k = c \<and> tid \<notin> set (pendingTasks d))
                        (\<lambda>u. u\<lparr>pendingTasks := pendingTasks u @ [tid]\<rparr>) us)"

definition pull_pending :: "string \<Rightarrow> string \<Rightarrow> (string \<times> user) list \<Rightarrow> (string \<times> user) list" where
  "pull_pending uid tid us =
     (if uid = [] \<or> tid = [] then us
      else case castObjectId uid of
             None \<Rightarrow> us
           | Some c \<Rightarrow> upd_where (\<lambda>k d. k = c)
                        (\<lambda>u. u\<lparr>pendingTasks := filter (\<lambda>i. i \<noteq> tid) (pendingTasks u)\<rparr>) us)"

definition reconcile :: "string \<Rightarrow> string \<Rightarrow> task \<Rightarrow> (string \<times> user) list \<Rightarrow> (string \<times> user) list" where
  "reconcile tid prevUser updated us =
     (let nextUser = assignedUser updated;
          us1 = (if prevUser \<noteq> [] \<and> prevUser \<noteq> nextUser then pull_pending prevUser tid us else us);
          us2 = (if nextUser \<noteq> [] \<and> \<not> completed updated then push_pending nextUser tid us1 else us1)
      in if completed updated \<and> nextUser \<noteq> [] then pull_pending nextUser tid us2 else us2)"

text \<open>The name of the user stored under the string \<open>a\<close>, and the name \<open>resolveUserName\<close>
  returns for \<open>a\<close>, which is the name of the user stored under the cast of \<open>a\<close>
  (\<open>unassigned\<close> for the empty string, which has no cast).\<close>

definition name_in :: "(string \<Rightarrow> user option) \<Rightarrow> string \<Rightarrow> string" where
  "name_in U a =
     (if a = [] then ''unassigned''
      else (case U a of None \<Rightarrow> ''unassigned'' | Some u \<Rightarrow> user_name u))"

definition resolved_name :: "store \<Rightarrow> string \<Rightarrow> string" where
  "resolved_name s a =
     (case castObjectId a of
        None \<Rightarrow> ''unassigned''
      | Some c \<Rightarrow> name_in (map_of (users s)) c)"

text \<open>The tasks a user update assigns and the tasks it may clear: those stored under the
  cast of an id that the new list has and the previous one has not, and the other way
  round.\<close>

definition added_docs :: "string list \<Rightarrow> string list \<Rightarrow> string set" where
  "added_docs prev_list l = set (docs_of (filter (\<lambda>i. i \<notin> set prev_list) l))"

definition removed_docs :: "string list \<Rightarrow> string list \<Rightarrow> string set" where
  "removed_docs prev_list l = set (docs_of (filter (\<lambda>i. i \<notin> set l) prev_list))"

section \<open>The contract, on lookups\<close>

text \<open>The same rules read through lookups by id, which is how the handlers see the
  two collections.\<close>

definition contractL :: "(string \<Rightarrow> user option) \<Rightarrow> (string \<Rightarrow> task option) \<Rightarrow> bool" where
  "contractL U T =
     (\<forall>tid t. T tid = Some t \<longrightarrow>
         assignedUserName t = name_in U (assignedUser t) \<and>
         (\<forall>uid u. U uid = Some u \<longrightarrow> pair_ok uid u tid t))"

text \<open>
  The calls that keep the contract. A call that stops at its validation or finds no
  document under its id changes nothing. Otherwise:

  \<^item> a task creation must get from the store an id in the string form of an ObjectId;
    the name resolved for the payload's assignee must be the name of the user stored
    under that very string; when the assignee is empty no pending list may name the
    new id, and otherwise the assignee's list may name it at most once, and not at all
    when the task is created completed;

  \<^item> a task update must resolve the name of the user stored under the string it leaves
    in \<open>assignedUser\<close>; when that string is empty, no list but the previous assignee's
    may name the task; when it names another user than before and the task is not
    completed, that user's list may name the task at most once;

  \<^item> a user update may change the name only when every task assigned to the user is
    among those it assigns or clears; the new list must name a task it assigns exactly
    once when the task is not completed and not at all when it is; a task it clears
    must be named neither by the new list nor by another user's list; of the other
    tasks, the new list must name those assigned to the user as the rules say, and
    none that is unassigned;

  \<^item> a user deletion must give the id in the form stored in \<open>assignedUser\<close> when a
    task is assigned to the user (or the user must be called \<open>unassigned\<close>), and no
    other user's list may name a task that it clears.
\<close>

fun call_ok :: "call \<Rightarrow> store \<Rightarrow> bool" where
  "call_ok (CreateTask newId now body) s =
     (truthy_str (tb_name body) \<and> truthy_num (tb_deadline body) \<longrightarrow>
      canonical newId \<and>
      (let a = or_empty (tb_assignedUser body)
       in resolved_name s a = name_in (map_of (users s)) a \<and>
          (\<forall>(v, w) \<in> set (users s).
             if a = [] then newId \<notin> set (pendingTasks w)
             else v = a \<longrightarrow>
                  count_list (pendingTasks w) newId
                    \<le> (if truthy_bool (tb_completed body) then 0 else 1))))"
| "call_ok (UpdateTask tid body) s =
     (truthy_str (tb_name body) \<and> truthy_num (tb_deadline body) \<longrightarrow>
      (case castObjectId tid of
         None \<Rightarrow> True
       | Some k \<Rightarrow>
           (case map_of (tasks s) k of
              None \<Rightarrow> True
            | Some prev \<Rightarrow>
                let p = assignedUser prev;
                    n = (case tb_assignedUser body of None \<Rightarrow> p | Some a \<Rightarrow> a);
                    finished = (case tb_completed body of None \<Rightarrow> completed prev | Some b \<Rightarrow> b)
                in resolved_name s (or_empty (tb_assignedUser body)) = name_in (map_of (users s)) n \<and>
                   (\<forall>(v, w) \<in> set (users s).
                      if n = [] then castObjectId p = Some v \<or> k \<notin> set (pendingTasks w)
                      else v = n \<and> \<not> finished \<and> p \<noteq> n \<and> castObjectId p \<noteq> Some n \<longrightarrow>
                           count_list (pendingTasks w) k \<le> 1))))"
| "call_ok (DeleteTask tid) s = True"
| "call_ok (UpdateUser uid body) s =
     (truthy_str (ub_name body) \<and> truthy_str (ub_email body) \<longrightarrow>
      (case castObjectId uid of
         None \<Rightarrow> True
       | Some c \<Rightarrow>
           (case map_of (users s) c of
              None \<Rightarrow> True
            | Some prev \<Rightarrow>
                (case ub_pendingTasks body of
                   None \<Rightarrow>
                     (\<forall>(k, t) \<in> set (tasks s).
                        assignedUser t = c \<longrightarrow> or_empty (ub_name body) = user_name prev)
                 | Some l \<Rightarrow>
                     (\<forall>(k, t) \<in> set (tasks s).
                        if k \<in> added_docs (pendingTasks prev) l
                        then count_list l k = (if completed t then 0 else 1)
                        else if k \<in> removed_docs (pendingTasks prev) l \<and> assignedUser t = c
                        then k \<notin> set l \<and>
                             (\<forall>(v, w) \<in> set (users s). v \<noteq> c \<longrightarrow> k \<notin> set (pendingTasks w))
                        else (assignedUser t = c \<longrightarrow>
                                or_empty (ub_name body) = user_name prev \<and>
                                count_list l k = (if completed t then 0 else 1)) \<and>
                             (assignedUser t = [] \<longrightarrow> k \<notin> set l))))))"
| "call_ok (DeleteUser uid) s =
     (case castObjectId uid of
        None \<Rightarrow> True
      | Some c \<Rightarrow>
          (case map_of (users s) c of
             None \<Rightarrow> True
           | Some prev \<Rightarrow>
               (\<forall>(k, t) \<in> set (tasks s).
                  (assignedUser t = c \<longrightarrow> uid = c \<or> user_name prev = ''unassigned'') \<and>
                  (assignedUser t = uid \<longrightarrow>
                     (\<forall>(v, w) \<in> set (users s). v \<noteq> c \<longrightarrow> k \<notin> set (pendingTasks w))))))"

section \<open>Example documents and payloads\<close>

text \<open>Ids of the examples: of three users, of a user that is not stored, and of tasks;
  Alice's id in upper case, which casts to the same ObjectId.\<close>

abbreviation alice_id :: string where
  "alice_id \<equiv> ''0000000000000000000000a1''"

abbreviation bob_id :: string where
  "bob_id \<equiv> ''0000000000000000000000a2''"

abbreviation carol_id :: string where
  "carol_id \<equiv> ''0000000000000000000000a3''"

abbreviation nobody_id :: string where
  "nobody_id \<equiv> ''0000000000000000000000a9''"

abbreviation task1_id :: string where
  "task1_id \<equiv> ''0000000000000000000000b1''"

abbreviation task2_id :: string where
  "task2_id \<equiv> ''0000000000000000000000b2''"

abbreviation task3_id :: string where
  "task3_id \<equiv> ''0000000000000000000000b3''"

abbreviation task5_id :: string where
  "task5_id \<equiv> ''0000000000000000000000b5''"

abbreviation task7_id :: string where
  "task7_id \<equiv> ''0000000000000000000000b7''"

abbreviation task9_id :: string where
  "task9_id \<equiv> ''0000000000000000000000b9''"

abbreviation alice_id_upper :: string where
  "alice_id_upper \<equiv> ''0000000000000000000000A1''"

definition alice :: user where
  "alice = \<lparr> user_name = ''Alice'', email = ''a@x.com'', pendingTasks = [task1_id],
             user_dateCreated = 1 \<rparr>"

definition bob :: user where
  "bob = \<lparr> user_name = ''Bob'', email = ''b@x.com'', pendingTasks = [], user_dateCreated = 2 \<rparr>"

definition task1 :: task where
  "task1 = \<lparr> task_name = ''T1'', description = [], deadline = 100, completed = False,
             assignedUser = alice_id, assignedUserName = ''Alice'', task_dateCreated = 3 \<rparr>"

definition store0 :: store where
  "store0 = \<lparr> users = [(alice_id, alice), (bob_id, bob)], tasks = [(task1_id, task1)], oplog = [] \<rparr>"

definition no_task_body :: task_body where
  "no_task_body = \<lparr> tb_name = None, tb_description = None, tb_deadline = None,
                    tb_completed = None, tb_assignedUser = None, tb_assignedUserName = None,
                    tb_dateCreated = None \<rparr>"

definition no_user_body :: user_body where
  "no_user_body = \<lparr> ub_name = None, ub_email = None, ub_pendingTasks = None,
                    ub_dateCreated = None \<rparr>"

definition task2 :: task where
  "task2 = \<lparr> task_name = ''T2'', description = [], deadline = 200, completed = False,
             assignedUser = [], assignedUserName = ''unassigned'', task_dateCreated = 4 \<rparr>"

definition task3 :: task where
  "task3 = \<lparr> task_name = ''T3'', description = [], deadline = 300, completed = False,
             assignedUser = alice_id, assignedUserName = ''Alice'', task_dateCreated = 5 \<rparr>"

definition store1 :: store where
  "store1 = \<lparr> users = [(alice_id, alice\<lparr>pendingTasks := [task1_id, task3_id]\<rparr>), (bob_id, bob)],
              tasks = [(task1_id, task1), (task2_id, task2), (task3_id, task3)], oplog = [] \<rparr>"

text \<open>Payloads: completing the first task under the same assignee; replacing Alice's
  pending list; a task for a user that does not exist; a task for an assignee that is
  no ObjectId; a task with a deadline one millisecond past the range of a date; an
  update that omits \<open>assignedUser\<close>; an update that carries \<open>dateCreated\<close>; a rename.\<close>

definition complete_body :: task_body where
  "complete_body = no_task_body \<lparr> tb_name := Some ''T1'', tb_deadline := Some 100,
                                  tb_completed := Some True, tb_assignedUser := Some alice_id \<rparr>"

definition sync_body :: user_body where
  "sync_body = \<lparr> ub_name = Some ''Alice'', ub_email = Some ''A@X.com'',
                 ub_pendingTasks = Some [task3_id, task2_id], ub_dateCreated = None \<rparr>"

definition dangling_body :: task_body where
  "dangling_body = no_task_body \<lparr> tb_name := Some ''T9'', tb_deadline := Some 900,
                                  tb_assignedUser := Some nobody_id \<rparr>"

definition malformed_body :: task_body where
  "malformed_body = no_task_body \<lparr> tb_name := Some ''T9'', tb_deadline := Some 900,
                                   tb_assignedUser := Some ''u9'' \<rparr>"

definition late_body :: task_body where
  "late_body = no_task_body \<lparr> tb_name := Some ''T9'', tb_deadline := Some 8640000000000001 \<rparr>"

definition omit_body :: task_body where
  "omit_body = no_task_body \<lparr> tb_name := Some ''T1'', tb_deadline := Some 100 \<rparr>"

definition redate_body :: task_body where
  "redate_body = no_task_body \<lparr> tb_name := Some ''T1'', tb_deadline := Some 100,
                                tb_assignedUser := Some alice_id, tb_dateCreated := Some 999 \<rparr>"

definition rename_body :: user_body where
  "rename_body = \<lparr> ub_name = Some ''Bob'', ub_email = Some ''a@x.com'',
                   ub_pendingTasks = None, ub_dateCreated = None \<rparr>"

text \<open>A store in which Bob's pending list names \<open>t1\<close>, a task assigned to Alice.\<close>

definition store_stale :: store where
  "store_stale = \<lparr> users = [(alice_id, alice), (bob_id, bob\<lparr>pendingTasks := [task1_id]\<rparr>)],
                   tasks = [(task1_id, task1)], oplog = [] \<rparr>"

text \<open>A store in which Bob's pending list names \<open>t7\<close>, an id under which no task is
  stored; a payload that lists \<open>t1\<close> twice; a payload for an unassigned task.\<close>

definition store_listed :: store where
  "store_listed = \<lparr> users = [(alice_id, alice), (bob_id, bob\<lparr>pendingTasks := [task7_id]\<rparr>)],
                    tasks = [(task1_id, task1)], oplog = [] \<rparr>"

definition dup_body :: user_body where
  "dup_body = \<lparr> ub_name = Some ''Alice'', ub_email = Some ''a@x.com'',
                ub_pendingTasks = Some [task1_id, task1_id], ub_dateCreated = None \<rparr>"

definition plain_body :: task_body where
  "plain_body = no_task_body \<lparr> tb_name := Some ''T7'', tb_deadline := Some 700 \<rparr>"

section \<open>Example list requests\<close>

text \<open>A list request without parameters, a store with 150 tasks and 150 users, and a
  store semantics to run it on (every document matches; no reordering, no projection).\<close>

definition no_params :: query_params where
  "no_params = \<lparr> q_where = None, q_sort = None, q_select = None, q_skip = None,
                  q_limit = None, q_count = None \<rparr>"

definition store_many :: store where
  "store_many = \<lparr> users = map (\<lambda>n. (replicate (Suc n) (CHR ''u''), bob)) [0..<150],
                  tasks = map (\<lambda>n. (replicate (Suc n) (CHR ''t''), task2)) [0..<150],
                  oplog = [] \<rparr>"

definition plain_mongo :: "(unit, 'd) mongo" where
  "plain_mongo = \<lparr> JSON_parse = (\<lambda>str. None), empty_obj = (), matches = (\<lambda>j d. True),
                   sort_docs = (\<lambda>j xs. xs), select_fields = (\<lambda>j d. d) \<rparr>"

text \<open>The payloads of the scenarios: a new user Carol, a second user under Alice's
  email, and a task for Alice.\<close>

definition carol_body :: user_body where
  "carol_body = \<lparr> ub_name = Some ''Carol'', ub_email = Some ''C@X.com'',
                  ub_pendingTasks = None, ub_dateCreated = None \<rparr>"

definition clash_body :: user_body where
  "clash_body = \<lparr> ub_name = Some ''Alicia'', ub_email = Some ''A@X.COM'',
                  ub_pendingTasks = None, ub_dateCreated = None \<rparr>"

definition for_alice_body :: task_body where
  "for_alice_body = no_task_body \<lparr> tb_name := Some ''T5'', tb_deadline := Some 500,
                                   tb_assignedUser := Some alice_id \<rparr>"


lemma delete_id_absent: "map_of c i = None \<Longrightarrow> delete_id i c = c"
  by (induction c) (auto simp: delete_id_def)

section \<open>Casting ids\<close>

lemma castObjectId_length: "castObjectId str = Some c \<Longrightarrow> length str = 24 \<and> length c = 24"
  by (auto simp: castObjectId_def toLowerCase_def split: if_splits)

lemma castObjectId_nonempty: "castObjectId str = Some c \<Longrightarrow> str \<noteq> [] \<and> c \<noteq> []"
  using castObjectId_length [of str c] by auto

lemma castObjectId_empty [simp]: "castObjectId [] = None"
  by (simp add: castObjectId_def)

lemma canonical_nonempty: "canonical k \<Longrightarrow> k \<noteq> []"
  by (auto simp: canonical_def)

lemma cast_example_ids:
  "castObjectId alice_id = Some alice_id" "castObjectId bob_id = Some bob_id"
  "castObjectId carol_id = Some carol_id" "castObjectId nobody_id = Some nobody_id"
  "castObjectId task1_id = Some task1_id" "castObjectId task2_id = Some task2_id"
  "castObjectId task3_id = Some task3_id" "castObjectId task5_id = Some task5_id"
  "castObjectId task7_id = Some task7_id" "castObjectId task9_id = Some task9_id"
  "castObjectId alice_id_upper = Some alice_id"
  "castObjectId ''u9'' = None" "castObjectId ''zz'' = None"
  by (simp_all add: castObjectId_def is_hex_def toLowerCase_def lower_char_def)

lemma cast_all_Nil [simp]: "cast_all [] = Some []"
  by (simp add: cast_all_def)


lemma docs_of_Nil [simp]: "docs_of [] = []"
  by (simp add: docs_of_def map_filter_simps)

lemma docs_of_Cons:
  "docs_of (x # xs) = (case castObjectId x of None \<Rightarrow> docs_of xs | Some c \<Rightarrow> c # docs_of xs)"
  by (simp add: docs_of_def map_filter_simps split: option.splits)



section \<open>Awaited calls\<close>

lemma await_Inl [simp]: "await (Inl e, s) f = (Inl e, s)"
  by (simp add: await_def)

lemma await_Inr [simp]: "await (Inr x, s) f = f x s"
  by (simp add: await_def)

lemma catch_Inl [simp]: "catch (Inl e, s) msg = (send 500 msg ErrorText, s)"
  by (simp add: catch_def)

lemma catch_Inr [simp]: "catch (Inr r, s) msg = (r, s)"
  by (simp add: catch_def)

lemma status_send [simp]: "status (send code msg d) = code"
  by (simp add: send_def)

lemma catch_replied:
  assumes "catch m msg = (r, s')" and "status r \<noteq> 500"
  shows "m = (Inr r, s')"
  using assms by (cases m; cases "fst m") auto

lemma awaitE:
  assumes "await m f = (Inr y, s')"
  obtains x s1 where "m = (Inr x, s1)" and "f x s1 = (Inr y, s')"
  using assms by (cases m; cases "fst m") auto

section \<open>Lookups after a store operation\<close>

lemma map_of_upd_where:
  "map_of (upd_where P f c) k = map_option (\<lambda>d. if P k d then f d else d) (map_of c k)"
  by (induction c) (auto simp: upd_where_def)

lemma map_of_delete_id:
  "map_of (delete_id i c) k = (if k = i then None else map_of c k)"
  by (induction c) (auto simp: delete_id_def)

lemma users_log_op [simp]: "users (log_op e s) = users s"
  by (simp add: log_op_def)

lemma tasks_log_op [simp]: "tasks (log_op e s) = tasks s"
  by (simp add: log_op_def)

lemma oplog_log_op [simp]: "oplog (log_op e s) = oplog s @ [e]"
  by (simp add: log_op_def)

lemma task_set_assignedUser [simp]:
  "assignedUser (task_set body a t) =
     (case tb_assignedUser body of None \<Rightarrow> assignedUser t | Some x \<Rightarrow> x)"
  by (simp add: task_set_def set_opt_def split: option.splits)

lemma task_set_completed [simp]:
  "completed (task_set body a t) =
     (case tb_completed body of None \<Rightarrow> completed t | Some x \<Rightarrow> x)"
  by (simp add: task_set_def set_opt_def split: option.splits)

lemma task_set_assignedUserName [simp]: "assignedUserName (task_set body a t) = a"
  by (simp add: task_set_def)

lemma task_set_dateCreated [simp]:
  "task_dateCreated (task_set body a t) =
     (case tb_dateCreated body of None \<Rightarrow> task_dateCreated t | Some x \<Rightarrow> x)"
  by (simp add: task_set_def set_opt_def split: option.splits)

lemma set_Set_of [simp]: "set (Set_of xs) = set xs"
  by (simp add: Set_of_def)



section \<open>What the awaited calls return\<close>

lemma User_updateOne_returned:
  assumes "User_updateOne uid cond f s = (Inr x, s1)"
  shows "\<exists>c. castObjectId uid = Some c \<and> tasks s1 = tasks s \<and>
             users s1 = upd_where (\<lambda>k d. k = c \<and> cond d) f (users s)"
  using assms by (auto simp: User_updateOne_def split: option.splits)

lemma addPendingToUser_returned:
  assumes "addPendingToUser uid tid s = (Inr x, s1)"
  shows "tasks s1 = tasks s \<and> users s1 = push_pending uid tid (users s)"
  using assms
  by (auto simp: addPendingToUser_def push_pending_def dest!: User_updateOne_returned
      split: if_splits)

lemma removePendingFromUser_returned:
  assumes "removePendingFromUser uid tid s = (Inr x, s1)"
  shows "tasks s1 = tasks s \<and> users s1 = pull_pending uid tid (users s)"
  using assms
  by (auto simp: removePendingFromUser_def pull_pending_def dest!: User_updateOne_returned
      split: if_splits)

lemma resolveUserName_returned:
  assumes "resolveUserName v s = (Inr nm, s1)"
  shows "tasks s1 = tasks s \<and> users s1 = users s \<and>
         nm = resolved_name s (or_empty v)"
  using assms
  by (auto simp: resolveUserName_def User_findById_def or_empty_def resolved_name_def
      name_in_def dest: castObjectId_nonempty split: option.splits if_splits)

lemma User_findById_returned:
  assumes "User_findById uid s = (Inr x, s1)"
  shows "\<exists>c. castObjectId uid = Some c \<and> x = map_option (Pair c) (map_of (users s) c) \<and>
             tasks s1 = tasks s \<and> users s1 = users s"
  using assms by (auto simp: User_findById_def split: option.splits)

lemma Task_findById_returned:
  assumes "Task_findById tid s = (Inr x, s1)"
  shows "\<exists>c. castObjectId tid = Some c \<and> x = map_option (Pair c) (map_of (tasks s) c) \<and>
             tasks s1 = tasks s \<and> users s1 = users s"
  using assms by (auto simp: Task_findById_def split: option.splits)

lemma Task_findByIdAndUpdate_returned:
  assumes "Task_findByIdAndUpdate tid upd s = (Inr x, s1)"
  shows "\<exists>c f. castObjectId tid = Some c \<and> upd = Some f \<and>
               x = map_option (\<lambda>t. (c, f t)) (map_of (tasks s) c) \<and>
               tasks s1 = upd_where (\<lambda>k d. k = c) f (tasks s) \<and> users s1 = users s"
  using assms by (auto simp: Task_findByIdAndUpdate_def split: option.splits)

lemma Task_findByIdAndDelete_returned:
  assumes "Task_findByIdAndDelete tid s = (Inr x, s1)"
  shows "\<exists>c. castObjectId tid = Some c \<and> x = map_option (Pair c) (map_of (tasks s) c) \<and>
             tasks s1 = delete_id c (tasks s) \<and> users s1 = users s"
  using assms by (auto simp: Task_findByIdAndDelete_def split: option.splits)

lemma User_findByIdAndDelete_returned:
  assumes "User_findByIdAndDelete uid s = (Inr x, s1)"
  shows "\<exists>c. castObjectId uid = Some c \<and> x = map_option (Pair c) (map_of (users s) c) \<and>
             users s1 = delete_id c (users s) \<and> tasks s1 = tasks s"
  using assms by (auto simp: User_findByIdAndDelete_def split: option.splits)



lemma Task_save_returned:
  assumes "Task_save newId doc s = (Inr t, s1)"
  shows "doc = Some t \<and> newId \<notin> fst ` set (tasks s) \<and> users s1 = users s \<and>
         tasks s1 = tasks s @ [(newId, t)]"
  using assms by (auto simp: Task_save_def split: option.splits if_splits)

section \<open>The effect of each call that replies\<close>

lemma resolved_name_cong: "users s1 = users s \<Longrightarrow> resolved_name s1 a = resolved_name s a"
  by (simp add: resolved_name_def cong: option.case_cong)

lemma pull_if_returned:
  assumes "(if b then removePendingFromUser uid tid s else (Inr (), s)) = (Inr x, s1)"
  shows "tasks s1 = tasks s \<and>
         users s1 = (if b then pull_pending uid tid (users s) else users s)"
  using assms by (auto dest: removePendingFromUser_returned split: if_splits)

lemma push_if_returned:
  assumes "(if b then addPendingToUser uid tid s else (Inr (), s)) = (Inr x, s1)"
  shows "tasks s1 = tasks s \<and>
         users s1 = (if b then push_pending uid tid (users s) else users s)"
  using assms by (auto dest: addPendingToUser_returned split: if_splits)

lemma tasks_id_put_effect:
  assumes run: "tasks_id_put tid body s = (r, s')" and replied: "status r \<noteq> 500"
  shows "(\<exists>k prev. castObjectId tid = Some k \<and> map_of (tasks s) k = Some prev \<and>
            truthy_str (tb_name body) \<and> truthy_num (tb_deadline body) \<and>
            r = send 200 ''Task updated''
                  (TaskDoc k (task_set body (resolved_name s (or_empty (tb_assignedUser body))) prev)) \<and>
            tasks s' = upd_where (\<lambda>i d. i = k)
                         (task_set body (resolved_name s (or_empty (tb_assignedUser body)))) (tasks s) \<and>
            users s' = reconcile k (assignedUser prev)
                         (task_set body (resolved_name s (or_empty (tb_assignedUser body))) prev)
                         (users s)) \<or>
         (status r \<noteq> 200 \<and> users s' = users s \<and> tasks s' = tasks s \<and>
          (truthy_str (tb_name body) \<and> truthy_num (tb_deadline body) \<longrightarrow>
             (\<exists>k. castObjectId tid = Some k \<and> map_of (tasks s) k = None)))"
proof (cases "truthy_str (tb_name body) \<and> truthy_num (tb_deadline body)")
  case False
  with run show ?thesis
    by (auto simp: tasks_id_put_def)
next
  case True
  let ?nm = "resolved_name s (or_empty (tb_assignedUser body))"
  from catch_replied [OF run [unfolded tasks_id_put_def] replied] True
  have body: "await (Task_findById tid s)
            (\<lambda>found s1.
               case found of
                 None \<Rightarrow> (Inr (send 404 ''Task not found'' Null), s1)
               | Some (prev_id, prev) \<Rightarrow>
                   let newAssignedUser = or_empty (tb_assignedUser body)
                   in await (resolveUserName (Some newAssignedUser) s1)
                        (\<lambda>newAssignedUserName s2.
                           await (Task_findByIdAndUpdate tid
                                    (task_update body newAssignedUserName) s2)
                             (\<lambda>written s3.
                                case written of
                                  None \<Rightarrow> (Inl TypeError, s3)
                                | Some (updated_id, updated) \<Rightarrow>
                                    let prevUser = assignedUser prev;
                                        nextUser = assignedUser updated
                                    in await (if prevUser \<noteq> [] \<and> prevUser \<noteq> nextUser
                                              then removePendingFromUser prevUser updated_id s3
                                              else (Inr (), s3))
                                         (\<lambda>_ s4.
                                            await (if nextUser \<noteq> [] \<and> \<not> completed updated
                                                   then addPendingToUser nextUser updated_id s4
                                                   else (Inr (), s4))
                                              (\<lambda>_ s5.
                                                 await (if completed updated \<and> nextUser \<noteq> []
                                                        then removePendingFromUser nextUser
                                                               updated_id s5
                                                        else (Inr (), s5))
                                                   (\<lambda>_ s6.
                                                      (Inr (send 200 ''Task updated''
                                                              (TaskDoc updated_id updated)),
                                                       s6))))))) = (Inr r, s')"
    by simp
  from body obtain found s1 where
    lookup: "Task_findById tid s = (Inr found, s1)" and
    rest1: "(case found of
                 None \<Rightarrow> (Inr (send 404 ''Task not found'' Null), s1)
               | Some (prev_id, prev) \<Rightarrow>
                   let newAssignedUser = or_empty (tb_assignedUser body)
                   in await (resolveUserName (Some newAssignedUser) s1)
                        (\<lambda>newAssignedUserName s2.
                           await (Task_findByIdAndUpdate tid
                                    (task_update body newAssignedUserName) s2)
                             (\<lambda>written s3.
                                case written of
                                  None \<Rightarrow> (Inl TypeError, s3)
                                | Some (updated_id, updated) \<Rightarrow>
                                    let prevUser = assignedUser prev;
                                        nextUser = assignedUser updated
                                    in await (if prevUser \<noteq> [] \<and> prevUser \<noteq> nextUser
                                              then removePendingFromUser prevUser updated_id s3
                                              else (Inr (), s3))
                                         (\<lambda>_ s4.
                                            await (if nextUser \<noteq> [] \<and> \<not> completed updated
                                                   then addPendingToUser nextUser updated_id s4
                                                   else (Inr (), s4))
                                              (\<lambda>_ s5.
                                                 await (if completed updated \<and> nextUser \<noteq> []
                                                        then removePendingFromUser nextUser
                                                               updated_id s5
                                                        else (Inr (), s5))
                                                   (\<lambda>_ s6.
                                                      (Inr (send 200 ''Task updated''
                                                              (TaskDoc updated_id updated)),
                                                       s6))))))) = (Inr r, s')"
    by (rule awaitE)
  from Task_findById_returned [OF lookup] obtain k where
    k: "castObjectId tid = Some k" and found: "found = map_option (Pair k) (map_of (tasks s) k)"
    and s1: "tasks s1 = tasks s" "users s1 = users s"
    by blast
  show ?thesis
  proof (cases "map_of (tasks s) k")
    case None
    with rest1 found s1 k True show ?thesis
      by auto
  next
    case (Some prev)
    with rest1 found have rest2:
      "await (resolveUserName (Some (or_empty (tb_assignedUser body))) s1)
                        (\<lambda>newAssignedUserName s2.
                           await (Task_findByIdAndUpdate tid
                                    (task_update body newAssignedUserName) s2)
                             (\<lambda>written s3.
                                case written of
                                  None \<Rightarrow> (Inl TypeError, s3)
                                | Some (updated_id, updated) \<Rightarrow>
                                    let prevUser = assignedUser prev;
                                        nextUser = assignedUser updated
                                    in await (if prevUser \<noteq> [] \<and> prevUser \<noteq> nextUser
                                              then removePendingFromUser prevUser updated_id s3
                                              else (Inr (), s3))
                                         (\<lambda>_ s4.
                                            await (if nextUser \<noteq> [] \<and> \<not> completed updated
                                                   then addPendingToUser nextUser updated_id s4
                                                   else (Inr (), s4))
                                              (\<lambda>_ s5.
                                                 await (if completed updated \<and> nextUser \<noteq> []
                                                        then removePendingFromUser nextUser
                                                               updated_id s5
                                                        else (Inr (), s5))
                                                   (\<lambda>_ s6.
                                                      (Inr (send 200 ''Task updated''
                                                              (TaskDoc updated_id updated)),
                                                       s6)))))) = (Inr r, s')"
      by (simp add: Let_def)
    from rest2 obtain nm s2 where
      resolve: "resolveUserName (Some (or_empty (tb_assignedUser body))) s1 = (Inr nm, s2)" and
      rest3: "await (Task_findByIdAndUpdate tid (task_update body nm) s2)
                             (\<lambda>written s3.
                                case written of
                                  None \<Rightarrow> (Inl TypeError, s3)
                                | Some (updated_id, updated) \<Rightarrow>
                                    let prevUser = assignedUser prev;
                                        nextUser = assignedUser updated
                                    in await (if prevUser \<noteq> [] \<and> prevUser \<noteq> nextUser
                                              then removePendingFromUser prevUser updated_id s3
                                              else (Inr (), s3))
                                         (\<lambda>_ s4.
                                            await (if nextUser \<noteq> [] \<and> \<not> completed updated
                                                   then addPendingToUser nextUser updated_id s4
                                                   else (Inr (), s4))
                                              (\<lambda>_ s5.
                                                 await (if completed updated \<and> nextUser \<noteq> []
                                                        then removePendingFromUser nextUser
                                                               updated_id s5
                                                        else (Inr (), s5))
                                                   (\<lambda>_ s6.
                                                      (Inr (send 200 ''Task updated''
                                                              (TaskDoc updated_id updated)),
                                                       s6))))) = (Inr r, s')"
      by (rule awaitE)
    from resolveUserName_returned [OF resolve] s1
    have nm: "nm = ?nm" and s2: "tasks s2 = tasks s" "users s2 = users s"
      by (simp_all add: or_empty_def resolved_name_cong [OF s1(2)])
    from rest3 obtain written s3 where
      wrote: "Task_findByIdAndUpdate tid (task_update body nm) s2 = (Inr written, s3)" and
      rest4: "(case written of
                                  None \<Rightarrow> (Inl TypeError, s3)
                                | Some (updated_id, updated) \<Rightarrow>
                                    let prevUser = assignedUser prev;
                                        nextUser = assignedUser updated
                                    in await (if prevUser \<noteq> [] \<and> prevUser \<noteq> nextUser
                                              then removePendingFromUser prevUser updated_id s3
                                              else (Inr (), s3))
                                         (\<lambda>_ s4.
                                            await (if nextUser \<noteq> [] \<and> \<not> completed updated
                                                   then addPendingToUser nextUser updated_id s4
                                                   else (Inr (), s4))
                                              (\<lambda>_ s5.
                                                 await (if completed updated \<and> nextUser \<noteq> []
                                                        then removePendingFromUser nextUser
                                                               updated_id s5
                                                        else (Inr (), s5))
                                                   (\<lambda>_ s6.
                                                      (Inr (send 200 ''Task updated''
                                                              (TaskDoc updated_id updated)),
                                                       s6))))) = (Inr r, s')"
      by (rule awaitE)
    from Task_findByIdAndUpdate_returned [OF wrote] k Some s2 obtain f where
      f: "task_update body nm = Some f" and
      written: "written = Some (k, f prev)" and
      s3: "tasks s3 = upd_where (\<lambda>i d. i = k) f (tasks s)" "users s3 = users s"
      by auto
    from f have f_eq: "f = task_set body ?nm"
      by (auto simp: task_update_def nm split: if_splits)
    define updated where "updated = task_set body ?nm prev"
    have written': "written = Some (k, updated)"
      using written f_eq by (simp add: updated_def)
    from rest4 [unfolded written'] have rest5:
      "await (if assignedUser prev \<noteq> [] \<and> assignedUser prev \<noteq> assignedUser updated
              then removePendingFromUser (assignedUser prev) k s3
              else (Inr (), s3))
         (\<lambda>_ s4.
            await (if assignedUser updated \<noteq> [] \<and> \<not> completed updated
                   then addPendingToUser (assignedUser updated) k s4
                   else (Inr (), s4))
              (\<lambda>_ s5.
                 await (if completed updated \<and> assignedUser updated \<noteq> []
                        then removePendingFromUser (assignedUser updated) k s5
                        else (Inr (), s5))
                   (\<lambda>_ s6. (Inr (send 200 ''Task updated'' (TaskDoc k updated)), s6)))) = (Inr r, s')"
      by (simp only: option.case prod.case Let_def)
    from rest5 obtain x4 s4 where
      step1: "(if assignedUser prev \<noteq> [] \<and> assignedUser prev \<noteq> assignedUser updated
              then removePendingFromUser (assignedUser prev) k s3
              else (Inr (), s3)) = (Inr x4, s4)" and
      rest6: "await (if assignedUser updated \<noteq> [] \<and> \<not> completed updated
                   then addPendingToUser (assignedUser updated) k s4
                   else (Inr (), s4))
              (\<lambda>_ s5.
                 await (if completed updated \<and> assignedUser updated \<noteq> []
                        then removePendingFromUser (assignedUser updated) k s5
                        else (Inr (), s5))
                   (\<lambda>_ s6. (Inr (send 200 ''Task updated'' (TaskDoc k updated)), s6))) = (Inr r, s')"
      by (rule awaitE)
    from rest6 obtain x5 s5 where
      step2: "(if assignedUser updated \<noteq> [] \<and> \<not> completed updated
                   then addPendingToUser (assignedUser updated) k s4
                   else (Inr (), s4)) = (Inr x5, s5)" and
      rest7: "await (if completed updated \<and> assignedUser updated \<noteq> []
                        then removePendingFromUser (assignedUser updated) k s5
                        else (Inr (), s5))
                   (\<lambda>_ s6. (Inr (send 200 ''Task updated'' (TaskDoc k updated)), s6)) = (Inr r, s')"
      by (rule awaitE)
    from rest7 obtain x6 s6 where
      step3: "(if completed updated \<and> assignedUser updated \<noteq> []
                        then removePendingFromUser (assignedUser updated) k s5
                        else (Inr (), s5)) = (Inr x6, s6)" and
      reply: "(Inr (send 200 ''Task updated'' (TaskDoc k updated)), s6) =
                (Inr r :: store_error + response, s')"
      by (rule awaitE)
    from pull_if_returned [OF step1] pull_if_returned [OF step3] push_if_returned [OF step2]
      s3 reply
    have "tasks s' = upd_where (\<lambda>i d. i = k) f (tasks s)"
      and "users s' = reconcile k (assignedUser prev) updated (users s)"
      and "r = send 200 ''Task updated'' (TaskDoc k updated)"
      by (auto simp: reconcile_def Let_def)
    with k Some True f_eq show ?thesis
      by (auto simp: updated_def)
  qed
qed







lemma users_id_delete_effect:
  assumes run: "users_id_delete uid s = (r, s')" and replied: "status r \<noteq> 500"
  shows "\<exists>c. castObjectId uid = Some c \<and>
           (map_of (users s) c = None \<and> users s' = users s \<and> tasks s' = tasks s \<or>
            map_of (users s) c \<noteq> None \<and> users s' = delete_id c (users s) \<and>
            tasks s' = upd_where (\<lambda>k t. assignedUser t = uid)
                         (\<lambda>t. t\<lparr>assignedUser := [], assignedUserName := ''unassigned''\<rparr>)
                         (tasks s))"
proof -
  from catch_replied [OF run [unfolded users_id_delete_def] replied] obtain user s1 where
    deleted: "User_findByIdAndDelete uid s = (Inr user, s1)" and
    rest: "(case user of
               None \<Rightarrow> (Inr (send 404 ''User not found'' Null), s1)
             | Some u \<Rightarrow>
                 let s2 = Task_updateMany (\<lambda>t. assignedUser t = uid)
                            (\<lambda>t. t\<lparr>assignedUser := [], assignedUserName := ''unassigned''\<rparr>) s1
                 in (Inr (send 200 ''User deleted (tasks unassigned)'' Null), s2)) =
             (Inr r :: store_error + response, s')"
    by (rule awaitE)
  from User_findByIdAndDelete_returned [OF deleted] obtain c where
    c: "castObjectId uid = Some c" and user: "user = map_option (Pair c) (map_of (users s) c)"
    and s1: "users s1 = delete_id c (users s)" "tasks s1 = tasks s"
    by blast
  show ?thesis
  proof (cases "map_of (users s) c")
    case None
    with rest user s1 c show ?thesis
      by (auto simp: delete_id_absent)
  next
    case (Some prev)
    with rest user s1 c show ?thesis
      by (auto simp: Task_updateMany_def Let_def)
  qed
qed

lemma tasks_id_delete_effect:
  assumes run: "tasks_id_delete tid s = (r, s')" and replied: "status r \<noteq> 500"
  shows "\<exists>k. castObjectId tid = Some k \<and> tasks s' = delete_id k (tasks s) \<and>
           (map_of (tasks s) k = None \<and> users s' = users s \<or>
            (\<exists>t. map_of (tasks s) k = Some t \<and>
                 users s' = pull_pending (assignedUser t) k (users s)))"
proof -
  from catch_replied [OF run [unfolded tasks_id_delete_def] replied] obtain found s1 where
    deleted: "Task_findByIdAndDelete tid s = (Inr found, s1)" and
    rest: "(case found of
               None \<Rightarrow> (Inr (send 404 ''Task not found'' Null), s1)
             | Some (task_id, task) \<Rightarrow>
                 await (if assignedUser task \<noteq> []
                        then removePendingFromUser (assignedUser task) task_id s1
                        else (Inr (), s1))
                   (\<lambda>_ s2. (Inr (send 200 ''Task deleted'' Null), s2))) = (Inr r, s')"
    by (rule awaitE)
  from Task_findByIdAndDelete_returned [OF deleted] obtain k where
    k: "castObjectId tid = Some k" and found: "found = map_option (Pair k) (map_of (tasks s) k)"
    and s1: "tasks s1 = delete_id k (tasks s)" "users s1 = users s"
    by blast
  show ?thesis
  proof (cases "map_of (tasks s) k")
    case None
    with rest found s1 k show ?thesis
      by auto
  next
    case (Some t)
    with rest found have
      "await (if assignedUser t \<noteq> []
              then removePendingFromUser (assignedUser t) k s1
              else (Inr (), s1))
         (\<lambda>_ s2. (Inr (send 200 ''Task deleted'' Null), s2)) = (Inr r, s')"
      by simp
    then obtain x s2 where
      pulled: "(if assignedUser t \<noteq> []
              then removePendingFromUser (assignedUser t) k s1
              else (Inr (), s1)) = (Inr x, s2)" and
      reply: "(Inr (send 200 ''Task deleted'' Null), s2) = (Inr r :: store_error + response, s')"
      by (rule awaitE)
    from pull_if_returned [OF pulled] reply s1
    have "tasks s' = delete_id k (tasks s)"
      and "users s' = pull_pending (assignedUser t) k (users s)"
      by (auto simp: pull_pending_def)
    with k Some show ?thesis
      by auto
  qed
qed

lemma tasks_post_effect:
  assumes run: "tasks_post newId now body s = (r, s')" and replied: "status r \<noteq> 500"
  shows "(\<exists>t. new_Task now body (resolved_name s (or_empty (tb_assignedUser body))) = Some t \<and>
            truthy_str (tb_name body) \<and> truthy_num (tb_deadline body) \<and>
            newId \<notin> fst ` set (tasks s) \<and>
            r = send 201 ''Task created'' (TaskDoc newId t) \<and>
            tasks s' = tasks s @ [(newId, t)] \<and>
            users s' = (if completed t then users s
                        else push_pending (assignedUser t) newId (users s))) \<or>
         (status r = 400 \<and> s' = s \<and>
          \<not> (truthy_str (tb_name body) \<and> truthy_num (tb_deadline body)))"
proof (cases "truthy_str (tb_name body) \<and> truthy_num (tb_deadline body)")
  case False
  with run show ?thesis
    by (auto simp: tasks_post_def)
next
  case True
  let ?nm = "resolved_name s (or_empty (tb_assignedUser body))"
  from catch_replied [OF run [unfolded tasks_post_def] replied] True
  have body: "await (resolveUserName (tb_assignedUser body) s)
            (\<lambda>assignedUserName s1.
               await (Task_save newId (new_Task now body assignedUserName) s1)
                 (\<lambda>task s2.
                    await (if truthy_str (tb_assignedUser body) \<and> \<not> truthy_bool (tb_completed body)
                           then addPendingToUser (or_empty (tb_assignedUser body)) newId s2
                           else (Inr (), s2))
                      (\<lambda>_ s3. (Inr (send 201 ''Task created'' (TaskDoc newId task)), s3))))
           = (Inr r, s')"
    by simp
  from body obtain nm s1 where
    resolve: "resolveUserName (tb_assignedUser body) s = (Inr nm, s1)" and
    rest1: "await (Task_save newId (new_Task now body nm) s1)
                 (\<lambda>task s2.
                    await (if truthy_str (tb_assignedUser body) \<and> \<not> truthy_bool (tb_completed body)
                           then addPendingToUser (or_empty (tb_assignedUser body)) newId s2
                           else (Inr (), s2))
                      (\<lambda>_ s3. (Inr (send 201 ''Task created'' (TaskDoc newId task)), s3)))
           = (Inr r, s')"
    by (rule awaitE)
  from resolveUserName_returned [OF resolve]
  have nm: "nm = ?nm" and s1: "tasks s1 = tasks s" "users s1 = users s"
    by simp_all
  from rest1 obtain t s2 where
    saved: "Task_save newId (new_Task now body nm) s1 = (Inr t, s2)" and
    rest2: "await (if truthy_str (tb_assignedUser body) \<and> \<not> truthy_bool (tb_completed body)
                           then addPendingToUser (or_empty (tb_assignedUser body)) newId s2
                           else (Inr (), s2))
                      (\<lambda>_ s3. (Inr (send 201 ''Task created'' (TaskDoc newId t)), s3))
           = (Inr r, s')"
    by (rule awaitE)
  from Task_save_returned [OF saved] s1 nm
  have t: "new_Task now body ?nm = Some t" and fresh: "newId \<notin> fst ` set (tasks s)"
    and s2: "users s2 = users s" "tasks s2 = tasks s @ [(newId, t)]"
    by simp_all
  from rest2 obtain x s3 where
    pushed: "(if truthy_str (tb_assignedUser body) \<and> \<not> truthy_bool (tb_completed body)
                           then addPendingToUser (or_empty (tb_assignedUser body)) newId s2
                           else (Inr (), s2)) = (Inr x, s3)" and
    reply: "(Inr (send 201 ''Task created'' (TaskDoc newId t)), s3) =
              (Inr r :: store_error + response, s')"
    by (rule awaitE)
  from t have fields: "assignedUser t = or_empty (tb_assignedUser body)"
      "completed t = truthy_bool (tb_completed body)"
    by (auto simp: new_Task_def or_empty_def truthy_bool_def split: option.splits if_splits)
  have "users s' = (if completed t then users s
                        else push_pending (assignedUser t) newId (users s))"
    using push_if_returned [OF pushed] reply s2 fields
    by (auto simp: truthy_str_def or_empty_def push_pending_def split: option.splits)
  moreover have "tasks s' = tasks s @ [(newId, t)]"
    using push_if_returned [OF pushed] reply s2 by auto
  moreover have "r = send 201 ''Task created'' (TaskDoc newId t)"
    using reply by simp
  ultimately show ?thesis
    using t True fresh by blast
qed

section \<open>The scenarios of the specification\<close>

text \<open>The model run on the scenarios: a created user's email is stored in lower case;
  a task created for Alice is stored under her name and its id is appended to her
  pending list; deleting Alice unassigns her task; a second user under an email in use
  is refused and nothing is written.\<close>

lemma scenario_create_user:
  "users_post carol_id 7 carol_body store0 =
     (send 201 ''User created''
        (UserDoc carol_id \<lparr> user_name = ''Carol'', email = ''c@x.com'', pendingTasks = [],
                            user_dateCreated = 7 \<rparr>),
      store0 \<lparr> users := users store0 @
                  [(carol_id, \<lparr> user_name = ''Carol'', email = ''c@x.com'', pendingTasks = [],
                                user_dateCreated = 7 \<rparr>)],
               oplog := [UserFindOne, UserSave carol_id] \<rparr>)"
  by (simp add: users_post_def carol_body_def store0_def alice_def bob_def truthy_str_def
      or_empty_def trim_def toLowerCase_def lower_char_def is_space_def User_findOne_email_def
      new_User_def date_ok_def User_save_def log_op_def Let_def)

lemma scenario_create_task:
  "tasks_post task5_id 7 for_alice_body store0 =
     (send 201 ''Task created''
        (TaskDoc task5_id \<lparr> task_name = ''T5'', description = [], deadline = 500,
                            completed = False, assignedUser = alice_id,
                            assignedUserName = ''Alice'', task_dateCreated = 7 \<rparr>),
      \<lparr> users = [(alice_id, alice\<lparr>pendingTasks := [task1_id, task5_id]\<rparr>), (bob_id, bob)],
        tasks = [(task1_id, task1),
                 (task5_id, \<lparr> task_name = ''T5'', description = [], deadline = 500,
                              completed = False, assignedUser = alice_id,
                              assignedUserName = ''Alice'', task_dateCreated = 7 \<rparr>)],
        oplog = [UserFindById alice_id, TaskSave task5_id, UserUpdateOne alice_id] \<rparr>)"
  by (simp add: tasks_post_def for_alice_body_def no_task_body_def store0_def alice_def bob_def
      truthy_str_def truthy_num_def truthy_bool_def or_empty_def resolveUserName_def
      User_findById_def cast_example_ids new_Task_def date_ok_def castDate_def Task_save_def
      addPendingToUser_def User_updateOne_def log_op_def upd_where_def)

lemma scenario_delete_user:
  "users_id_delete alice_id store0 =
     (send 200 ''User deleted (tasks unassigned)'' Null,
      \<lparr> users = [(bob_id, bob)],
        tasks = [(task1_id, task1\<lparr>assignedUser := [], assignedUserName := ''unassigned''\<rparr>)],
        oplog = [UserFindByIdAndDelete alice_id, TaskUpdateMany] \<rparr>)"
  by (simp add: users_id_delete_def store0_def alice_def task1_def User_findByIdAndDelete_def
      cast_example_ids Task_updateMany_def log_op_def upd_where_def delete_id_def)

lemma scenario_duplicate_email:
  "users_post carol_id 7 clash_body store0 =
     (send 400 ''User with that email already exists'' Null,
      store0 \<lparr> oplog := [UserFindOne] \<rparr>)"
  by (simp add: users_post_def clash_body_def store0_def alice_def bob_def truthy_str_def
      or_empty_def trim_def toLowerCase_def lower_char_def is_space_def User_findOne_email_def
      log_op_def Let_def)

section \<open>The Name Resolver\<close>

text \<open>
  C6, as stated, fails: \<open>resolveUserName\<close> has no \<open>try\<close> of its own, and the lookup
  \<open>User.findById\<close> throws a CastError for an id that is not the string form of an
  ObjectId, such as \<open>u9\<close>.
\<close>

theorem resolveUserName_raises:
  "resolveUserName (Some ''u9'') store0 = (Inl CastError, log_op (UserFindById ''u9'') store0)"
  by (simp add: resolveUserName_def User_findById_def cast_example_ids)

text \<open>
  C6, amended. For an absent or empty id \<open>resolveUserName\<close> returns \<open>unassigned\<close> and
  the store is as before, its log included: no lookup was made. For a non-empty id it
  makes one lookup by id. When the id is the string form of an ObjectId the function
  returns: a miss gives \<open>unassigned\<close>, a hit the user's name. For any other non-empty
  id the lookup throws a CastError and the function returns no name.
\<close>

theorem resolveUserName_outcome:
  "resolveUserName None s = (Inr ''unassigned'', s) \<and>
   resolveUserName (Some []) s = (Inr ''unassigned'', s) \<and>
   (castObjectId i = Some c \<longrightarrow> map_of (users s) c = None \<longrightarrow>
      resolveUserName (Some i) s = (Inr ''unassigned'', log_op (UserFindById i) s)) \<and>
   (castObjectId i = Some c \<longrightarrow> map_of (users s) c = Some u \<longrightarrow>
      resolveUserName (Some i) s = (Inr (user_name u), log_op (UserFindById i) s)) \<and>
   (i \<noteq> [] \<longrightarrow> castObjectId i = None \<longrightarrow>
      resolveUserName (Some i) s = (Inl CastError, log_op (UserFindById i) s))"
  by (auto simp: resolveUserName_def User_findById_def dest: castObjectId_nonempty)

theorem resolveUserName_outcome_witness:
  "castObjectId nobody_id = Some nobody_id \<and> map_of (users store0) nobody_id = None \<and>
   resolveUserName (Some nobody_id) store0 =
     (Inr ''unassigned'', log_op (UserFindById nobody_id) store0) \<and>
   castObjectId alice_id_upper = Some alice_id \<and> map_of (users store0) alice_id = Some alice \<and>
   resolveUserName (Some alice_id_upper) store0 =
     (Inr ''Alice'', log_op (UserFindById alice_id_upper) store0) \<and>
   resolveUserName (Some []) store0 = (Inr ''unassigned'', store0)"
  using resolveUserName_outcome [where s = store0 and i = nobody_id and c = nobody_id]
    resolveUserName_outcome [where s = store0 and i = alice_id_upper and c = alice_id
      and u = alice]
  by (simp add: store0_def cast_example_ids alice_def)

section \<open>Validation comes first\<close>

text \<open>
  C10. A create or update call whose payload lacks a required field (\<open>name\<close> or \<open>email\<close>
  for a user, \<open>name\<close> or \<open>deadline\<close> for a task; an empty or zero value counts as
  lacking) replies 400 with the missing-fields message and returns the store as it
  was, log included: no document was read or written. The id of an update plays no
  part, so an update of an id that does not exist gets the same 400 and not a 404.
\<close>

theorem validation_before_store:
  "(\<not> truthy_str (ub_name ub) \<or> \<not> truthy_str (ub_email ub) \<longrightarrow>
      users_post newId now ub s = (send 400 ''Missing required fields (name, email)'' Null, s) \<and>
      users_id_put uid ub s = (send 400 ''Missing required fields (name, email)'' Null, s)) \<and>
   (\<not> truthy_str (tb_name tb) \<or> \<not> truthy_num (tb_deadline tb) \<longrightarrow>
      tasks_post newId now tb s = (send 400 ''Missing required fields (name, deadline)'' Null, s) \<and>
      tasks_id_put tid tb s = (send 400 ''Missing required fields (name, deadline)'' Null, s))"
  by (auto simp: users_post_def users_id_put_def tasks_post_def tasks_id_put_def)

theorem validation_before_store_witness:
  "\<not> truthy_str (ub_email no_user_body) \<and> \<not> truthy_num (tb_deadline no_task_body) \<and>
   map_of (users store0) nobody_id = None \<and> map_of (tasks store0) task9_id = None \<and>
   users_id_put nobody_id no_user_body store0 =
     (send 400 ''Missing required fields (name, email)'' Null, store0) \<and>
   tasks_id_put task9_id no_task_body store0 =
     (send 400 ''Missing required fields (name, deadline)'' Null, store0) \<and>
   users_post carol_id 7 no_user_body store0 =
     (send 400 ''Missing required fields (name, email)'' Null, store0) \<and>
   tasks_post task2_id 7 no_task_body store0 =
     (send 400 ''Missing required fields (name, deadline)'' Null, store0)"
  using validation_before_store [where ub = no_user_body and tb = no_task_body and s = store0
        and newId = carol_id and now = 7 and uid = nobody_id and tid = task9_id]
    validation_before_store [where ub = no_user_body and tb = no_task_body and s = store0
        and newId = task2_id and now = 7 and uid = nobody_id and tid = task9_id]
  by (simp add: no_user_body_def no_task_body_def truthy_str_def truthy_num_def store0_def)

section \<open>Completing an assigned task\<close>

text \<open>
  C4. An update of a stored task whose payload names an existing user as assignee and
  sets \<open>completed\<close> to true, with dates that are dates, replies 200; afterwards the task
  is still assigned to that user and the user's pending list does not contain the task
  id. The removal of a completed task is the last of the three reconciliation steps.
  This holds when the assignee is kept, and also when the task was unassigned or
  assigned under any other id that is the string form of an ObjectId.
\<close>

theorem complete_while_assigned:
  assumes "castObjectId tid = Some k" and "map_of (tasks s) k = Some t"
    and "castObjectId u = Some cu" and "map_of (users s) cu = Some usr"
    and "truthy_str (tb_name body)" and "truthy_num (tb_deadline body)"
    and "date_ok (tb_deadline body)" and "date_ok (tb_dateCreated body)"
    and "tb_assignedUser body = Some u" and "tb_completed body = Some True"
    and "assignedUser t = u \<or> assignedUser t = [] \<or> castObjectId (assignedUser t) \<noteq> None"
  shows "\<exists>t' usr' s'.
           tasks_id_put tid body s = (send 200 ''Task updated'' (TaskDoc k t'), s') \<and>
           map_of (tasks s') k = Some t' \<and> assignedUser t' = u \<and> completed t' \<and>
           map_of (users s') cu = Some usr' \<and> k \<notin> set (pendingTasks usr')"
proof -
  from assms(3) have u: "u \<noteq> []"
    by (auto dest: castObjectId_nonempty)
  from assms(1) have k: "k \<noteq> []"
    by (auto dest: castObjectId_nonempty)
  show ?thesis
  proof (cases "assignedUser t = u \<or> assignedUser t = []")
    case True
    with assms u k show ?thesis
      by (auto simp: tasks_id_put_def Task_findById_def resolveUserName_def User_findById_def
          Task_findByIdAndUpdate_def task_update_def or_empty_def removePendingFromUser_def
          addPendingToUser_def User_updateOne_def map_of_upd_where Let_def)
  next
    case False
    with assms(11) obtain cp where "castObjectId (assignedUser t) = Some cp"
      by auto
    with False assms u k show ?thesis
      by (auto simp: tasks_id_put_def Task_findById_def resolveUserName_def User_findById_def
          Task_findByIdAndUpdate_def task_update_def or_empty_def removePendingFromUser_def
          addPendingToUser_def User_updateOne_def map_of_upd_where Let_def)
  qed
qed

theorem complete_while_assigned_witness:
  "castObjectId task1_id = Some task1_id \<and> map_of (tasks store0) task1_id = Some task1 \<and>
   assignedUser task1 = alice_id \<and>
   castObjectId alice_id = Some alice_id \<and> map_of (users store0) alice_id = Some alice \<and>
   task1_id \<in> set (pendingTasks alice) \<and>
   truthy_str (tb_name complete_body) \<and> truthy_num (tb_deadline complete_body) \<and>
   date_ok (tb_deadline complete_body) \<and> date_ok (tb_dateCreated complete_body) \<and>
   tb_assignedUser complete_body = Some alice_id \<and> tb_completed complete_body = Some True \<and>
   (\<exists>t' usr' s'.
      tasks_id_put task1_id complete_body store0 =
        (send 200 ''Task updated'' (TaskDoc task1_id t'), s') \<and>
      map_of (tasks s') task1_id = Some t' \<and> assignedUser t' = alice_id \<and> completed t' \<and>
      map_of (users s') alice_id = Some usr' \<and> task1_id \<notin> set (pendingTasks usr'))"
  using complete_while_assigned [where s = store0 and tid = task1_id and k = task1_id
      and t = task1 and u = alice_id and cu = alice_id and usr = alice and body = complete_body]
  by (simp add: store0_def task1_def alice_def complete_body_def no_task_body_def
      truthy_str_def truthy_num_def date_ok_def castDate_def cast_example_ids)

section \<open>Creating a task for a user that does not exist\<close>

text \<open>
  C7, as stated, fails: the assignee \<open>u9\<close> is not empty and resolves to no user, and
  the creation does not succeed. The lookup of the name throws a CastError, the reply
  is 500 and no task is stored.
\<close>

theorem create_task_malformed_assignee:
  "truthy_str (tb_name malformed_body) \<and> truthy_num (tb_deadline malformed_body) \<and>
   tb_assignedUser malformed_body = Some ''u9'' \<and> map_of (users store0) ''u9'' = None \<and>
   tasks_post task9_id 50 malformed_body store0 =
     (send 500 ''Server error creating task'' ErrorText,
      store0 \<lparr> oplog := [UserFindById ''u9''] \<rparr>)"
  by (simp add: tasks_post_def malformed_body_def no_task_body_def store0_def truthy_str_def
      truthy_num_def resolveUserName_def User_findById_def cast_example_ids log_op_def)

text \<open>The same reply for a deadline that is not a date: the task fails validation when
  it is saved.\<close>

lemma create_task_late_deadline:
  "tasks_post task9_id 50 late_body store0 =
     (send 500 ''Server error creating task'' ErrorText, store0 \<lparr> oplog := [TaskSave task9_id] \<rparr>)"
  by (simp add: tasks_post_def late_body_def no_task_body_def store0_def truthy_str_def
      truthy_num_def resolveUserName_def new_Task_def date_ok_def castDate_def Task_save_def
      log_op_def)

text \<open>
  C7, amended. A task creation never replies 404. When the payload has a name and a
  deadline and names as assignee the string form of an ObjectId under which no user is
  stored, its dates are dates, and the store assigns an id that is not in use, the
  reply is 201 with the created task: the task is stored with the assignee id as
  given and with \<open>assignedUserName\<close> \<open>unassigned\<close>, and the user collection is as
  before. When the assignee is not empty and is not the string form of an ObjectId,
  the reply is 500 and both collections are as before.
\<close>

theorem create_task_dangling_assignee:
  "status (fst (tasks_post newId now body s)) \<noteq> 404 \<and>
   (truthy_str (tb_name body) \<longrightarrow> truthy_num (tb_deadline body) \<longrightarrow>
    tb_assignedUser body = Some a \<longrightarrow>
    (castObjectId a = Some c \<longrightarrow> map_of (users s) c = None \<longrightarrow>
     date_ok (tb_deadline body) \<longrightarrow> date_ok (tb_dateCreated body) \<longrightarrow>
     newId \<notin> fst ` set (tasks s) \<longrightarrow>
     (\<exists>t s'. tasks_post newId now body s = (send 201 ''Task created'' (TaskDoc newId t), s') \<and>
             map_of (tasks s') newId = Some t \<and>
             assignedUser t = a \<and> assignedUserName t = ''unassigned'' \<and>
             users s' = users s)) \<and>
    (a \<noteq> [] \<longrightarrow> castObjectId a = None \<longrightarrow>
     (\<exists>s'. tasks_post newId now body s = (send 500 ''Server error creating task'' ErrorText, s') \<and>
           tasks s' = tasks s \<and> users s' = users s)))"
proof -
  have never_404: "status (fst (tasks_post newId now body s)) \<noteq> 404"
  proof (cases "status (fst (tasks_post newId now body s)) = 500")
    case True
    then show ?thesis
      by simp
  next
    case False
    from tasks_post_effect [OF prod.collapse [symmetric] False] show ?thesis
      by auto
  qed
  have created: "\<exists>t s'. tasks_post newId now body s = (send 201 ''Task created'' (TaskDoc newId t), s') \<and>
            map_of (tasks s') newId = Some t \<and>
            assignedUser t = a \<and> assignedUserName t = ''unassigned'' \<and>
            users s' = users s"
    if has_name: "truthy_str (tb_name body)" and has_deadline: "truthy_num (tb_deadline body)"
      and assignee: "tb_assignedUser body = Some a" "castObjectId a = Some c"
      and dangling: "map_of (users s) c = None"
      and dates: "date_ok (tb_deadline body)" "date_ok (tb_dateCreated body)"
      and fresh: "newId \<notin> fst ` set (tasks s)"
  proof -
    from assignee have a: "a \<noteq> []"
      by (auto dest: castObjectId_nonempty)
    have no_task: "map_of (tasks s) newId = None"
      using fresh by (simp add: map_of_eq_None_iff)
    have no_user: "(c, d) \<notin> set (users s)" for d
      using dangling weak_map_of_SomeI [of c d "users s"] by auto
    have same_users: "upd_where (\<lambda>k d. k = c \<and> P d) f (users s) = users s" for P f
      unfolding upd_where_def using no_user by (auto intro!: map_idI)
    obtain n dl where n: "tb_name body = Some n" and dl: "tb_deadline body = Some dl"
      using has_name has_deadline by (auto simp: truthy_str_def truthy_num_def split: option.splits)
    have resolved: "resolveUserName (Some a) s = (Inr ''unassigned'', log_op (UserFindById a) s)"
      using assignee dangling a by (simp add: resolveUserName_def User_findById_def)
    show ?thesis
      using has_name has_deadline assignee n dl no_task fresh dates a
      by (auto simp: tasks_post_def resolved new_Task_def Task_save_def addPendingToUser_def
          User_updateOne_def same_users map_add_def or_empty_def truthy_str_def truthy_bool_def
          split: option.splits)
  qed
  have refused: "\<exists>s'. tasks_post newId now body s =
                        (send 500 ''Server error creating task'' ErrorText, s') \<and>
           tasks s' = tasks s \<and> users s' = users s"
    if "truthy_str (tb_name body)" and "truthy_num (tb_deadline body)"
      and "tb_assignedUser body = Some a" and "a \<noteq> []" and "castObjectId a = None"
    using that by (simp add: tasks_post_def resolveUserName_def User_findById_def)
  from never_404 created refused show ?thesis
    by blast
qed

theorem create_task_dangling_assignee_witness:
  "truthy_str (tb_name dangling_body) \<and> truthy_num (tb_deadline dangling_body) \<and>
   tb_assignedUser dangling_body = Some nobody_id \<and>
   castObjectId nobody_id = Some nobody_id \<and> map_of (users store0) nobody_id = None \<and>
   date_ok (tb_deadline dangling_body) \<and> date_ok (tb_dateCreated dangling_body) \<and>
   task9_id \<notin> fst ` set (tasks store0) \<and>
   (\<exists>t s'. tasks_post task9_id 50 dangling_body store0 =
              (send 201 ''Task created'' (TaskDoc task9_id t), s') \<and>
            map_of (tasks s') task9_id = Some t \<and>
            assignedUser t = nobody_id \<and> assignedUserName t = ''unassigned'' \<and>
            users s' = users store0)"
  using create_task_dangling_assignee [where newId = task9_id and now = 50
      and body = dangling_body and s = store0 and a = nobody_id and c = nobody_id]
  by (simp add: dangling_body_def no_task_body_def store0_def truthy_str_def truthy_num_def
      date_ok_def castDate_def cast_example_ids)

section \<open>Updating a task without an assignee in the payload\<close>

text \<open>
  C2. What the update writes. For a stored task, a payload with a name and a deadline
  whose dates are dates, and assignee ids, in the payload and in the stored task, that
  are empty or the string form of an ObjectId, the reply is 200; the stored
  \<open>assignedUser\<close> afterwards is the payload's when the payload carries one, and the
  previous one when it does not; the stored \<open>assignedUserName\<close> is resolved from the
  payload's \<open>assignedUser\<close>, read as empty when absent.
\<close>

theorem update_task_stored_assignee:
  assumes "castObjectId tid = Some k" and "map_of (tasks s) k = Some prev"
    and "truthy_str (tb_name body)" and "truthy_num (tb_deadline body)"
    and "date_ok (tb_deadline body)" and "date_ok (tb_dateCreated body)"
    and "or_empty (tb_assignedUser body) = [] \<or>
         castObjectId (or_empty (tb_assignedUser body)) \<noteq> None"
    and "assignedUser prev = [] \<or> castObjectId (assignedUser prev) \<noteq> None"
  shows "\<exists>t' s'. tasks_id_put tid body s = (send 200 ''Task updated'' (TaskDoc k t'), s') \<and>
           map_of (tasks s') k = Some t' \<and>
           assignedUser t' = (case tb_assignedUser body of None \<Rightarrow> assignedUser prev | Some a \<Rightarrow> a) \<and>
           fst (resolveUserName (Some (or_empty (tb_assignedUser body))) s) =
             Inr (assignedUserName t')"
proof -
  from assms(1) have k: "k \<noteq> []"
    by (auto dest: castObjectId_nonempty)
  let ?a = "or_empty (tb_assignedUser body)"
  have "\<exists>nm. \<forall>s0. users s0 = users s \<longrightarrow>
          resolveUserName (Some ?a) s0 =
            (Inr nm, if ?a = [] then s0 else log_op (UserFindById ?a) s0)"
  proof (cases "?a = []")
    case True
    then show ?thesis
      by (simp add: resolveUserName_def)
  next
    case False
    with assms(7) obtain c where "castObjectId ?a = Some c"
      by auto
    with False show ?thesis
      by (cases "map_of (users s) c") (simp_all add: resolveUserName_def User_findById_def)
  qed
  then obtain nm where resolved:
    "\<And>s0. users s0 = users s \<Longrightarrow>
       resolveUserName (Some ?a) s0 = (Inr nm, if ?a = [] then s0 else log_op (UserFindById ?a) s0)"
    by blast
  define s2 where "s2 = (if ?a = [] then log_op (TaskFindById tid) s
                         else log_op (UserFindById ?a) (log_op (TaskFindById tid) s))"
  have resolved1: "resolveUserName (Some ?a) (log_op (TaskFindById tid) s) = (Inr nm, s2)"
    using resolved [of "log_op (TaskFindById tid) s"] by (simp add: s2_def)
  have s2: "tasks s2 = tasks s" "users s2 = users s"
    by (simp_all add: s2_def)
  define t' where "t' = task_set body nm prev"
  have next_cast: "assignedUser t' = [] \<or> castObjectId (assignedUser t') \<noteq> None"
    using assms(7,8) by (auto simp: t'_def or_empty_def split: option.splits)
  have written: "Task_findByIdAndUpdate tid (task_update body nm) s2 =
      (Inr (Some (k, t')),
       log_op (TaskFindByIdAndUpdate tid)
         (s2\<lparr>tasks := upd_where (\<lambda>i d. i = k) (task_set body nm) (tasks s)\<rparr>))"
    using assms(1,2,5,6) s2
    by (simp add: Task_findByIdAndUpdate_def task_update_def t'_def)
  have pull: "\<exists>s1. removePendingFromUser (assignedUser prev) k s0 = (Inr (), s1) \<and>
                   tasks s1 = tasks s0" for s0
    using assms(8) by (auto simp: removePendingFromUser_def User_updateOne_def)
  have pull': "\<exists>s1. removePendingFromUser (assignedUser t') k s0 = (Inr (), s1) \<and>
                   tasks s1 = tasks s0" for s0
    using next_cast by (auto simp: removePendingFromUser_def User_updateOne_def)
  have push: "\<exists>s1. addPendingToUser (assignedUser t') k s0 = (Inr (), s1) \<and>
                   tasks s1 = tasks s0" for s0
    using next_cast by (auto simp: addPendingToUser_def User_updateOne_def)
  have step1: "\<exists>s1. (if assignedUser prev \<noteq> [] \<and> assignedUser prev \<noteq> assignedUser t'
                     then removePendingFromUser (assignedUser prev) k s0
                     else (Inr (), s0)) = (Inr (), s1) \<and> tasks s1 = tasks s0" for s0
    using pull [of s0] by auto
  have step2: "\<exists>s1. (if assignedUser t' \<noteq> [] \<and> \<not> completed t'
                     then addPendingToUser (assignedUser t') k s0
                     else (Inr (), s0)) = (Inr (), s1) \<and> tasks s1 = tasks s0" for s0
    using push [of s0] by auto
  have step3: "\<exists>s1. (if completed t' \<and> assignedUser t' \<noteq> []
                     then removePendingFromUser (assignedUser t') k s0
                     else (Inr (), s0)) = (Inr (), s1) \<and> tasks s1 = tasks s0" for s0
    using pull' [of s0] by auto
  define s3 where "s3 = log_op (TaskFindByIdAndUpdate tid)
         (s2\<lparr>tasks := upd_where (\<lambda>i d. i = k) (task_set body nm) (tasks s)\<rparr>)"
  from step1 [of s3] obtain s4 where
    s4: "(if assignedUser prev \<noteq> [] \<and> assignedUser prev \<noteq> assignedUser t'
          then removePendingFromUser (assignedUser prev) k s3
          else (Inr (), s3)) = (Inr (), s4)" "tasks s4 = tasks s3"
    by blast
  from step2 [of s4] obtain s5 where
    s5: "(if assignedUser t' \<noteq> [] \<and> \<not> completed t'
          then addPendingToUser (assignedUser t') k s4
          else (Inr (), s4)) = (Inr (), s5)" "tasks s5 = tasks s4"
    by blast
  from step3 [of s5] obtain s6 where
    s6: "(if completed t' \<and> assignedUser t' \<noteq> []
          then removePendingFromUser (assignedUser t') k s5
          else (Inr (), s5)) = (Inr (), s6)" "tasks s6 = tasks s5"
    by blast
  have run: "tasks_id_put tid body s = (send 200 ''Task updated'' (TaskDoc k t'), s6)"
    using assms(1-4) resolved1 written s4(1) s5(1) s6(1)
    by (simp add: tasks_id_put_def Task_findById_def s3_def [symmetric] Let_def)
  have "map_of (tasks s6) k = Some t'"
    using s6(2) s5(2) s4(2) assms(2) by (simp add: s3_def map_of_upd_where t'_def)
  moreover have "assignedUser t' =
      (case tb_assignedUser body of None \<Rightarrow> assignedUser prev | Some a \<Rightarrow> a)"
    by (simp add: t'_def)
  moreover have "fst (resolveUserName (Some (or_empty (tb_assignedUser body))) s) =
      Inr (assignedUserName t')"
    using resolved [of s] by (simp add: t'_def)
  ultimately show ?thesis
    using run by blast
qed

text \<open>
  At the payload \<open>{name: "T1", deadline: 100}\<close> for the first task, assigned to Alice:
  the stored task keeps Alice's id in \<open>assignedUser\<close>, while its \<open>assignedUserName\<close>
  becomes \<open>unassigned\<close>, and Alice's pending list still holds the task.
\<close>

theorem update_task_omitted_assignee_kept:
  "tb_assignedUser omit_body = None \<and>
   map_of (tasks store0) task1_id = Some task1 \<and> assignedUser task1 = alice_id \<and>
   tasks_id_put task1_id omit_body store0 =
     (send 200 ''Task updated'' (TaskDoc task1_id (task1\<lparr>assignedUserName := ''unassigned''\<rparr>)),
      \<lparr> users = [(alice_id, alice), (bob_id, bob)],
        tasks = [(task1_id, task1\<lparr>assignedUserName := ''unassigned''\<rparr>)],
        oplog = [TaskFindById task1_id, TaskFindByIdAndUpdate task1_id,
                 UserUpdateOne alice_id] \<rparr>) \<and>
   assignedUser (task1\<lparr>assignedUserName := ''unassigned''\<rparr>) \<noteq> []"
  using update_task_stored_assignee [where s = store0 and tid = task1_id and k = task1_id
      and prev = task1 and body = omit_body]
  by (simp add: tasks_id_put_def omit_body_def no_task_body_def store0_def task1_def alice_def
      bob_def truthy_str_def truthy_num_def Task_findById_def resolveUserName_def or_empty_def
      Task_findByIdAndUpdate_def task_update_def date_ok_def castDate_def task_set_def
      set_opt_def addPendingToUser_def removePendingFromUser_def User_updateOne_def
      cast_example_ids log_op_def upd_where_def Let_def)


section \<open>Replacing a user's pending list\<close>

text \<open>When the ids of both lists are strings of ObjectIds as the store prints them, the
  tasks a user update assigns are those the new list names and the previous one does
  not, and the tasks it may clear are those the previous list names and the new one
  does not.\<close>

lemma docs_of_canonical: "list_all canonical xs \<Longrightarrow> set (docs_of xs) = set xs"
  by (induction xs) (auto simp: docs_of_Cons canonical_def)

lemma added_docs_canonical:
  "list_all canonical l \<Longrightarrow> added_docs pl l = set l - set pl"
  unfolding added_docs_def
  by (subst docs_of_canonical) (auto simp: list_all_iff)

lemma removed_docs_canonical:
  "list_all canonical pl \<Longrightarrow> removed_docs pl l = set pl - set l"
  unfolding removed_docs_def
  by (subst docs_of_canonical) (auto simp: list_all_iff)







section \<open>The creation date\<close>

text \<open>The collections after an awaited call, whether it returns or throws.\<close>

lemma snd_catch [simp]: "snd (catch m msg) = snd m"
  by (cases m; cases "fst m") auto

lemma await_keeps:
  assumes "g (snd m) = v" and "\<And>x s1. g s1 = v \<Longrightarrow> g (snd (f x s1)) = v"
  shows "g (snd (await m f)) = v"
  using assms by (cases m; cases "fst m") auto

lemma upd_where_keeps:
  assumes "\<And>d. g (f d) = g d"
  shows "map (\<lambda>(k, d). (k, g d)) (upd_where P f c) = map (\<lambda>(k, d). (k, g d)) c"
  using assms by (induction c) (auto simp: upd_where_def)

lemma snd_findById [simp]:
  "users (snd (User_findById uid s)) = users s" "tasks (snd (User_findById uid s)) = tasks s"
  "users (snd (Task_findById tid s)) = users s" "tasks (snd (Task_findById tid s)) = tasks s"
  by (simp_all add: User_findById_def Task_findById_def split: option.splits)

lemma snd_resolveUserName [simp]:
  "users (snd (resolveUserName v s)) = users s" "tasks (snd (resolveUserName v s)) = tasks s"
  by (auto simp: resolveUserName_def await_def split: option.splits prod.splits sum.splits
      dest!: User_findById_returned)
     (auto simp: User_findById_def split: option.splits)

lemma snd_User_updateOne:
  "tasks (snd (User_updateOne uid cond f s)) = tasks s"
  "(\<And>d. user_dateCreated (f d) = user_dateCreated d) \<Longrightarrow>
   map (\<lambda>(k, u). (k, user_dateCreated u)) (users (snd (User_updateOne uid cond f s))) =
   map (\<lambda>(k, u). (k, user_dateCreated u)) (users s)"
  by (simp_all add: User_updateOne_def upd_where_keeps split: option.splits)

lemma snd_pending [simp]:
  "tasks (snd (addPendingToUser uid tid s)) = tasks s"
  "tasks (snd (removePendingFromUser uid tid s)) = tasks s"
  "map (\<lambda>(k, u). (k, user_dateCreated u)) (users (snd (addPendingToUser uid tid s))) =
   map (\<lambda>(k, u). (k, user_dateCreated u)) (users s)"
  "map (\<lambda>(k, u). (k, user_dateCreated u)) (users (snd (removePendingFromUser uid tid s))) =
   map (\<lambda>(k, u). (k, user_dateCreated u)) (users s)"
  by (simp_all add: addPendingToUser_def removePendingFromUser_def snd_User_updateOne)

lemma snd_Task_findByIdAndUpdate [simp]:
  "users (snd (Task_findByIdAndUpdate tid upd s)) = users s"
  "(\<And>f d. upd = Some f \<Longrightarrow> task_dateCreated (f d) = task_dateCreated d) \<Longrightarrow>
   map (\<lambda>(k, t). (k, task_dateCreated t)) (tasks (snd (Task_findByIdAndUpdate tid upd s))) =
   map (\<lambda>(k, t). (k, task_dateCreated t)) (tasks s)"
  by (simp_all add: Task_findByIdAndUpdate_def upd_where_keeps split: option.splits)

lemma snd_User_findByIdAndUpdate [simp]:
  "tasks (snd (User_findByIdAndUpdate uid f s)) = tasks s"
  "(\<And>d. user_dateCreated (f d) = user_dateCreated d) \<Longrightarrow>
   map (\<lambda>(k, u). (k, user_dateCreated u)) (users (snd (User_findByIdAndUpdate uid f s))) =
   map (\<lambda>(k, u). (k, user_dateCreated u)) (users s)"
  by (simp_all add: User_findByIdAndUpdate_def upd_where_keeps split: option.splits)

lemma snd_Task_updateMany_in [simp]:
  "users (snd (Task_updateMany_in ids P f s)) = users s"
  "(\<And>d. task_dateCreated (f d) = task_dateCreated d) \<Longrightarrow>
   map (\<lambda>(k, t). (k, task_dateCreated t)) (tasks (snd (Task_updateMany_in ids P f s))) =
   map (\<lambda>(k, t). (k, task_dateCreated t)) (tasks s)"
  by (simp_all add: Task_updateMany_in_def upd_where_keeps split: option.splits)

lemma users_id_put_dates:
  "map (\<lambda>(k, u). (k, user_dateCreated u)) (users (snd (users_id_put uid ub s))) =
   map (\<lambda>(k, u). (k, user_dateCreated u)) (users s)"
  by (auto simp: users_id_put_def Let_def split: option.splits
      intro!: await_keeps [where g = "\<lambda>s. map (\<lambda>(k, u). (k, user_dateCreated u)) (users s)"])

lemma users_id_put_task_dates:
  "map (\<lambda>(k, t). (k, task_dateCreated t)) (tasks (snd (users_id_put uid ub s))) =
   map (\<lambda>(k, t). (k, task_dateCreated t)) (tasks s)"
  by (auto simp: users_id_put_def Let_def split: option.splits
      intro!: await_keeps [where g = "\<lambda>s. map (\<lambda>(k, t). (k, task_dateCreated t)) (tasks s)"])

lemma tasks_id_put_user_dates:
  "map (\<lambda>(k, u). (k, user_dateCreated u)) (users (snd (tasks_id_put tid tb s))) =
   map (\<lambda>(k, u). (k, user_dateCreated u)) (users s)"
  by (auto simp: tasks_id_put_def Let_def split: option.splits
      intro!: await_keeps [where g = "\<lambda>s. map (\<lambda>(k, u). (k, user_dateCreated u)) (users s)"])

lemma snd_task_update:
  assumes "tb_dateCreated tb = None"
  shows "map (\<lambda>(k, t). (k, task_dateCreated t))
           (tasks (snd (Task_findByIdAndUpdate tid (task_update tb nm) s))) =
         map (\<lambda>(k, t). (k, task_dateCreated t)) (tasks s)"
  using assms
  by (simp add: Task_findByIdAndUpdate_def task_update_def upd_where_keeps split: option.splits)

lemma tasks_id_put_dates:
  assumes "tb_dateCreated tb = None"
  shows "map (\<lambda>(k, t). (k, task_dateCreated t)) (tasks (snd (tasks_id_put tid tb s))) =
         map (\<lambda>(k, t). (k, task_dateCreated t)) (tasks s)"
  using assms
  by (auto simp: tasks_id_put_def Let_def snd_task_update split: option.splits
      intro!: await_keeps [where g = "\<lambda>s. map (\<lambda>(k, t). (k, task_dateCreated t)) (tasks s)"])

text \<open>
  C9, as stated, fails for a task update: the payload
  \<open>{name: "T1", deadline: 100, assignedUser: <Alice's id>, dateCreated: 999}\<close> for the
  first task, created at 3, leaves it with the creation date 999.
\<close>

theorem update_task_rewrites_dateCreated:
  "map_option task_dateCreated (map_of (tasks store0) task1_id) = Some 3 \<and>
   status (fst (tasks_id_put task1_id redate_body store0)) = 200 \<and>
   map_option task_dateCreated
     (map_of (tasks (snd (tasks_id_put task1_id redate_body store0))) task1_id) = Some 999"
  by (simp add: tasks_id_put_def redate_body_def no_task_body_def store0_def task1_def alice_def
      truthy_str_def truthy_num_def Task_findById_def resolveUserName_def User_findById_def
      or_empty_def Task_findByIdAndUpdate_def task_update_def date_ok_def castDate_def
      addPendingToUser_def removePendingFromUser_def User_updateOne_def cast_example_ids
      map_of_upd_where Let_def)

text \<open>
  C9, amended. A user update changes the creation date of no document, whatever the
  payload and whatever the reply. A task update changes the creation date of no user,
  and of no task when the payload carries no \<open>dateCreated\<close>; when it carries one and the
  reply is 200, the updated task gets the payload's date. In each case the documents
  are the same ones, in the same order.
\<close>

theorem dateCreated_kept:
  "map (\<lambda>(k, u). (k, user_dateCreated u)) (users (snd (users_id_put uid ub s))) =
     map (\<lambda>(k, u). (k, user_dateCreated u)) (users s) \<and>
   map (\<lambda>(k, t). (k, task_dateCreated t)) (tasks (snd (users_id_put uid ub s))) =
     map (\<lambda>(k, t). (k, task_dateCreated t)) (tasks s) \<and>
   map (\<lambda>(k, u). (k, user_dateCreated u)) (users (snd (tasks_id_put tid tb s))) =
     map (\<lambda>(k, u). (k, user_dateCreated u)) (users s) \<and>
   (tb_dateCreated tb = None \<longrightarrow>
      map (\<lambda>(k, t). (k, task_dateCreated t)) (tasks (snd (tasks_id_put tid tb s))) =
        map (\<lambda>(k, t). (k, task_dateCreated t)) (tasks s)) \<and>
   (tb_dateCreated tb = Some d \<longrightarrow> status (fst (tasks_id_put tid tb s)) = 200 \<longrightarrow>
      (\<exists>k. castObjectId tid = Some k \<and>
           map_option task_dateCreated (map_of (tasks (snd (tasks_id_put tid tb s))) k) = Some d))"
proof -
  have rewritten: "\<exists>k. castObjectId tid = Some k \<and>
      map_option task_dateCreated (map_of (tasks (snd (tasks_id_put tid tb s))) k) = Some d"
    if "tb_dateCreated tb = Some d" and ok: "status (fst (tasks_id_put tid tb s)) = 200"
  proof -
    from ok have "status (fst (tasks_id_put tid tb s)) \<noteq> 500"
      by simp
    from tasks_id_put_effect [OF prod.collapse [symmetric] this] that show ?thesis
      by (auto simp: map_of_upd_where)
  qed
  show ?thesis
    using users_id_put_dates [of uid ub s] users_id_put_task_dates [of uid ub s]
      tasks_id_put_user_dates [of tid tb s] tasks_id_put_dates [of tb tid s] rewritten
    by blast
qed

theorem dateCreated_kept_witness:
  "tb_dateCreated complete_body = None \<and>
   map (\<lambda>(k, t). (k, task_dateCreated t))
     (tasks (snd (tasks_id_put task1_id complete_body store0))) = [(task1_id, 3)] \<and>
   map (\<lambda>(k, u). (k, user_dateCreated u))
     (users (snd (users_id_put alice_id sync_body store1))) = [(alice_id, 1), (bob_id, 2)]"
  using dateCreated_kept [where tb = complete_body and tid = task1_id and s = store0]
    dateCreated_kept [where ub = sync_body and uid = alice_id and s = store1]
  by (simp add: complete_body_def no_task_body_def store0_def store1_def task1_def alice_def
      bob_def)

section \<open>The default limit of a task list\<close>

lemma buildQuery_limit:
  assumes "\<not> truthy_str (q_limit q)" and "q_count q \<noteq> Some ''true''"
  shows "qy_limit (buildQuery M q isTasks) = (if isTasks then Some 100 else None)"
  using assms by (simp add: buildQuery_def Let_def)

lemma exec_limited:
  assumes "exec M qy docs = Some ds" and "qy_limit qy = Some n" and "0 < n"
  shows "length ds \<le> nat n"
  using assms
  by (auto simp: exec_def Let_def split: option.splits if_splits)

lemma exec_unlimited:
  assumes "exec M qy docs = Some ds" and "qy_limit qy = None"
  shows "length ds =
           length (case qy_sort qy of
                     None \<Rightarrow> filter (matches M (qy_filter qy)) docs
                   | Some j \<Rightarrow> sort_docs M j (filter (matches M (qy_filter qy)) docs))
           - nat (case qy_skip qy of None \<Rightarrow> 0 | Some k \<Rightarrow> k)"
  using assms
  by (auto simp: exec_def Let_def split: option.splits if_splits)

text \<open>
  C8. For a list request without a (truthy) \<open>limit\<close> parameter and without
  \<open>count=true\<close>: the query built for tasks has the limit 100 and a task list reply
  holds at most 100 documents; the query built for users has no limit and a user list
  reply holds every matching document that the skip leaves, however many there are.
\<close>

theorem tasks_default_limit:
  assumes "\<not> truthy_str (q_limit q)" and "q_count q \<noteq> Some ''true''"
  shows "qy_limit (buildQuery Mt q True) = Some 100 \<and>
         (\<forall>ds. rdata (fst (tasks_get Mt q s)) = TaskDocs ds \<longrightarrow> length ds \<le> 100) \<and>
         qy_limit (buildQuery Mu q False) = None \<and>
         (\<forall>ds. rdata (fst (users_get Mu q s)) = UserDocs ds \<longrightarrow>
            length ds =
              length (case qy_sort (buildQuery Mu q False) of
                        None \<Rightarrow> filter (matches Mu (qy_filter (buildQuery Mu q False))) (users s)
                      | Some j \<Rightarrow> sort_docs Mu j
                                   (filter (matches Mu (qy_filter (buildQuery Mu q False))) (users s)))
              - nat (case qy_skip (buildQuery Mu q False) of None \<Rightarrow> 0 | Some k \<Rightarrow> k))"
proof (intro conjI allI impI)
  show "qy_limit (buildQuery Mt q True) = Some 100"
    using assms by (simp add: buildQuery_limit)
  show "qy_limit (buildQuery Mu q False) = None"
    using assms by (simp add: buildQuery_limit)
next
  fix ds assume reply: "rdata (fst (tasks_get Mt q s)) = TaskDocs ds"
  then have "exec Mt (buildQuery Mt q True) (tasks s) = Some ds"
    using assms(2) by (auto simp: tasks_get_def send_def split: option.splits)
  then have "length ds \<le> nat 100"
    by (rule exec_limited) (use assms in \<open>simp_all add: buildQuery_limit\<close>)
  then show "length ds \<le> 100" by simp
next
  fix ds assume reply: "rdata (fst (users_get Mu q s)) = UserDocs ds"
  then have "exec Mu (buildQuery Mu q False) (users s) = Some ds"
    using assms(2) by (auto simp: users_get_def send_def split: option.splits)
  then show "length ds =
              length (case qy_sort (buildQuery Mu q False) of
                        None \<Rightarrow> filter (matches Mu (qy_filter (buildQuery Mu q False))) (users s)
                      | Some j \<Rightarrow> sort_docs Mu j
                                   (filter (matches Mu (qy_filter (buildQuery Mu q False))) (users s)))
              - nat (case qy_skip (buildQuery Mu q False) of None \<Rightarrow> 0 | Some k \<Rightarrow> k)"
    by (rule exec_unlimited) (use assms in \<open>simp add: buildQuery_limit\<close>)
qed

lemma no_params_query:
  "buildQuery plain_mongo no_params isTasks =
     \<lparr> qy_filter = (), qy_sort = None, qy_select = None, qy_skip = None,
       qy_limit = (if isTasks then Some 100 else None) \<rparr>"
  by (simp add: buildQuery_def no_params_def truthy_str_def Let_def)

theorem tasks_default_limit_witness:
  "\<not> truthy_str (q_limit no_params) \<and> q_count no_params \<noteq> Some ''true'' \<and>
   length (tasks store_many) = 150 \<and> length (users store_many) = 150 \<and>
   (\<exists>ds. rdata (fst (tasks_get plain_mongo no_params store_many)) = TaskDocs ds \<and>
         length ds = 100) \<and>
   (\<exists>ds. rdata (fst (users_get plain_mongo no_params store_many)) = UserDocs ds \<and>
         length ds = 150)"
  using tasks_default_limit [where q = no_params and s = store_many
      and Mt = "plain_mongo :: (unit, task) mongo" and Mu = "plain_mongo :: (unit, user) mongo"]
  by (simp add: no_params_query tasks_get_def users_get_def exec_def send_def)
     (simp add: no_params_def truthy_str_def store_many_def plain_mongo_def)


end
